theory Spec2Isabelle
  imports Main "HOL-Library.AList" "HOL-Library.Multiset"
begin

section \<open>JavaScript values\<close>

text \<open>
  The values that \<^verbatim>\<open>server.js\<close> handles are request bodies, responses of the Plaid
  client and the user record parsed from \<^verbatim>\<open>user_data.json\<close>: trees of JSON data, and
  \<^verbatim>\<open>undefined\<close>. A number is kept as the decimal text that \<^verbatim>\<open>String(n)\<close> prints (the
  program never computes with one). An object is the list of its own properties in
  insertion order. An array carries its elements and the named (non-index) properties
  that an assignment \<^verbatim>\<open>a[key] = val\<close> adds to it.
\<close>

datatype jsval =
    Undefined
  | Null
  | Bool bool
  | Num string
  | Str string
  | Arr "jsval list" "(string \<times> jsval) list"
  | Obj "(string \<times> jsval) list"

text \<open>
  The exceptions of the program: the engine's \<^verbatim>\<open>TypeError\<close> and \<^verbatim>\<open>SyntaxError\<close>, a
  file-system error with its \<^verbatim>\<open>code\<close>, and the error object that a call of the Plaid
  client rejects with, given by its own properties.
\<close>

datatype js_error =
    TypeError
  | SyntaxError
  | SystemError string
  | RemoteError "(string \<times> jsval) list"

definition nullish :: "jsval \<Rightarrow> bool" where
  "nullish v = (v = Undefined \<or> v = Null)"

text \<open>
  \<^verbatim>\<open>o[k]\<close> and \<^verbatim>\<open>o.k\<close>, for the property names that the program reads (none of them
  is defined by a built-in prototype, and none is an array index): reading from
  \<^verbatim>\<open>undefined\<close> or \<^verbatim>\<open>null\<close> throws, a primitive has no such property.
\<close>

fun get_prop :: "jsval \<Rightarrow> string \<Rightarrow> js_error + jsval" where
  "get_prop Undefined k = Inl TypeError"
| "get_prop Null k = Inl TypeError"
| "get_prop (Obj ps) k = Inr (case map_of ps k of None \<Rightarrow> Undefined | Some v \<Rightarrow> v)"
| "get_prop (Arr xs ps) k = Inr (case map_of ps k of None \<Rightarrow> Undefined | Some v \<Rightarrow> v)"
| "get_prop (Bool b) k = Inr Undefined"
| "get_prop (Num n) k = Inr Undefined"
| "get_prop (Str s) k = Inr Undefined"

text \<open>
  \<^verbatim>\<open>o[k] = v\<close> under \<^verbatim>\<open>"use strict"\<close> (line 1 of the file): an existing property keeps
  its place, a new one is added last; the assignment throws on \<^verbatim>\<open>undefined\<close>,
  \<^verbatim>\<open>null\<close> and, in strict mode, on a primitive.
\<close>

fun set_prop :: "jsval \<Rightarrow> string \<Rightarrow> jsval \<Rightarrow> js_error + jsval" where
  "set_prop (Obj ps) k v = Inr (Obj (AList.update k v ps))"
| "set_prop (Arr xs ps) k v = Inr (Arr xs (AList.update k v ps))"
| "set_prop Undefined k v = Inl TypeError"
| "set_prop Null k v = Inl TypeError"
| "set_prop (Bool b) k v = Inl TypeError"
| "set_prop (Num n) k v = Inl TypeError"
| "set_prop (Str s) k v = Inl TypeError"

text \<open>
  The conversion to a string that a template literal \<^verbatim>\<open>`...${v}...`\<close> applies. An
  object of JSON data prints as \<^verbatim>\<open>[object Object]\<close>, unless it has an own property
  \<^verbatim>\<open>toString\<close>: that one is not callable, \<^verbatim>\<open>valueOf\<close> yields no primitive, and the
  conversion throws a \<^verbatim>\<open>TypeError\<close> (\<open>None\<close>). An array joins the conversions of its
  elements with commas, \<^verbatim>\<open>undefined\<close> and \<^verbatim>\<open>null\<close> printing as the empty string.
\<close>

fun ToString :: "jsval \<Rightarrow> string option" where
  "ToString Undefined = Some ''undefined''"
| "ToString Null = Some ''null''"
| "ToString (Bool b) = Some (if b then ''true'' else ''false'')"
| "ToString (Num n) = Some n"
| "ToString (Str s) = Some s"
| "ToString (Obj ps) =
     (if ''toString'' \<in> fst ` set ps then None else Some ''[object Object]'')"
| "ToString (Arr xs ps) =
     (if ''toString'' \<in> fst ` set ps then None
      else if ''join'' \<in> fst ` set ps then Some ''[object Array]''
      else map_option
        (\<lambda>ss. concat (case ss of [] \<Rightarrow> [] | s # r \<Rightarrow> s # map ((@) '','') r))
        (those (map (\<lambda>x. if x = Undefined \<or> x = Null then Some [] else ToString x) xs)))"

section \<open>The process state and its environment\<close>

text \<open>
  What \<^verbatim>\<open>fs.readFile(USER_DATA_FILE)\<close> finds: no file (\<^verbatim>\<open>ENOENT\<close>), a file that cannot
  be read (the error's code), or the file's text.
\<close>

datatype disk = Missing | Unreadable string | Content string

fun fs_readFile :: "disk \<Rightarrow> js_error + string" where
  "fs_readFile Missing = Inl (SystemError ''ENOENT'')"
| "fs_readFile (Unreadable c) = Inl (SystemError c)"
| "fs_readFile (Content s) = Inr s"

text \<open>
  The outcome of one \<^verbatim>\<open>fs.writeFile\<close>, chosen by the environment: the text is written,
  or the call fails with an error and leaves the file in the given condition.
\<close>

datatype write_outcome = WriteOk | WriteFails js_error disk

text \<open>
  A response, as the handler hands it to Express 4. \<open>Reply status body\<close>: the status
  code that is set and the body given to \<^verbatim>\<open>res.json\<close> or \<^verbatim>\<open>res.send\<close>.
  \<open>StatusOnly n\<close>: \<^verbatim>\<open>res.send(n)\<close> with a number \<open>n\<close>, which Express 4 reads as
  \<^verbatim>\<open>res.send(status)\<close>: it sets the status code to \<open>n\<close>, whatever \<^verbatim>\<open>res.status\<close> has
  set before, and sends the status text of \<open>n\<close> as the body.
\<close>

datatype reply = Reply nat jsval | StatusOnly string

datatype logarg = Txt string | Val jsval | Err js_error

text \<open>
  The observable effects of the process, in the order in which they happen: a line on the
  console, a call of the Plaid client (operation and request), an attempt to write the
  store, and the response handed to Express.
\<close>

datatype event =
    Console "logarg list"
  | RemoteCall string jsval
  | FsWrite string write_outcome
  | Responded reply

record server =
  userRecord :: jsval
  webhookUrl :: jsval
  basicLinkTokenObject :: jsval
  user_data_file :: disk
  trace :: "event list"

definition emit :: "event \<Rightarrow> server \<Rightarrow> server" where
  "emit e st = st\<lparr>trace := trace st @ [e]\<rparr>"

text \<open>
  \<^verbatim>\<open>JSON.parse\<close> and \<^verbatim>\<open>JSON.stringify\<close> belong to the platform and are parameters of
  the model. \<open>JSON_parse\<close> yields \<open>None\<close> where \<^verbatim>\<open>JSON.parse\<close> throws a
  \<^verbatim>\<open>SyntaxError\<close>; \<open>JSON_stringify\<close> yields \<open>None\<close> where \<^verbatim>\<open>JSON.stringify\<close>
  returns \<^verbatim>\<open>undefined\<close> (on trees of JSON data it does not throw).
\<close>

record json =
  JSON_parse :: "string \<Rightarrow> jsval option"
  JSON_stringify :: "jsval \<Rightarrow> string option"

text \<open>
  The Plaid client is the remote service: each operation maps its request to the
  response it resolves with, or to the error it rejects with.
\<close>

record plaid =
  linkTokenCreate :: "jsval \<Rightarrow> js_error + jsval"
  itemPublicTokenExchange :: "jsval \<Rightarrow> js_error + jsval"
  transactionsGet :: "jsval \<Rightarrow> js_error + jsval"
  accountsBalanceGet :: "jsval \<Rightarrow> js_error + jsval"
  assetReportCreate :: "jsval \<Rightarrow> js_error + jsval"
  sandboxItemFireWebhook :: "jsval \<Rightarrow> js_error + jsval"
  itemWebhookUpdate :: "jsval \<Rightarrow> js_error + jsval"

definition FIELD_ACCESS_TOKEN :: string where
  "FIELD_ACCESS_TOKEN = ''accessToken''"

definition FIELD_USER_STATUS :: string where
  "FIELD_USER_STATUS = ''userStatus''"

text \<open>
  \<^verbatim>\<open>process.env.WEBHOOK_URL || "https://www.example.com/server/plaid_webhook"\<close>: an
  unset or empty variable gives the default.
\<close>

definition initial_webhookUrl :: "string option \<Rightarrow> jsval" where
  "initial_webhookUrl env =
     (case env of
        None \<Rightarrow> Str ''https://www.example.com/server/plaid_webhook''
      | Some s \<Rightarrow> if s = [] then Str ''https://www.example.com/server/plaid_webhook'' else Str s)"

text \<open>
  The process when the module has been loaded and the start-up block has not yet run:
  \<^verbatim>\<open>let userRecord;\<close>, and \<^verbatim>\<open>basicLinkTokenObject\<close> (lines 107-114) built once, from
  the first value of \<^verbatim>\<open>webhookUrl\<close>.
\<close>

definition boot :: "string option \<Rightarrow> disk \<Rightarrow> server" where
  "boot env d =
     \<lparr>userRecord = Undefined, webhookUrl = initial_webhookUrl env,
      basicLinkTokenObject =
        Obj [(''user'', Obj [(''client_user_id'', Str ''testUser'')]),
             (''client_name'', Str ''Webhook Test App''),
             (''language'', Str ''en''),
             (''products'', Arr [Str ''transactions'', Str ''assets''] []),
             (''country_codes'', Arr [Str ''US''] []),
             (''webhook'', initial_webhookUrl env)],
      user_data_file = d, trace = []\<rparr>"

section \<open>The record store\<close>

text \<open>\<^verbatim>\<open>error.code\<close> of an error caught in \<^verbatim>\<open>getUserRecord\<close>.\<close>

fun error_code :: "js_error \<Rightarrow> jsval" where
  "error_code (SystemError c) = Str c"
| "error_code (RemoteError ps) = (case map_of ps ''code'' of None \<Rightarrow> Undefined | Some v \<Rightarrow> v)"
| "error_code TypeError = Undefined"
| "error_code SyntaxError = Undefined"

text \<open>
  \<^verbatim>\<open>getUserRecord\<close> (lines 47-64). The \<^verbatim>\<open>try\<close> block reads and parses the file; the
  \<^verbatim>\<open>catch\<close> block turns every error into \<^verbatim>\<open>null\<close>. The result is a sum so that a
  rejection of the \<^verbatim>\<open>async\<close> function would be a value \<open>Inl\<close>.
\<close>

definition getUserRecord_try :: "json \<Rightarrow> server \<Rightarrow> (js_error + jsval) \<times> server" where
  "getUserRecord_try J st =
     (case fs_readFile (user_data_file st) of
        Inl e \<Rightarrow> (Inl e, st)
      | Inr userData \<Rightarrow>
          (case JSON_parse J userData of
             None \<Rightarrow> (Inl SyntaxError, st)
           | Some userDataObj \<Rightarrow>
               (Inr userDataObj,
                emit (Console [Txt (''Retrieved userData '' @ userData)]) st)))"

definition getUserRecord :: "json \<Rightarrow> server \<Rightarrow> (js_error + jsval) \<times> server" where
  "getUserRecord J st =
     (case getUserRecord_try J st of
        (Inr userDataObj, st1) \<Rightarrow> (Inr userDataObj, st1)
      | (Inl error, st1) \<Rightarrow>
          if error_code error = Str ''ENOENT''
          then (Inr Null,
                emit (Console [Txt ''No user object found. We'll make one from scratch.'']) st1)
          else (Inr Null, emit (Console [Txt ''Got an error'', Err error]) st1))"

definition default_record :: jsval where
  "default_record = Obj [(FIELD_ACCESS_TOKEN, Null), (FIELD_USER_STATUS, Str ''disconnected'')]"

text \<open>
  The start-up block (lines 66-74). Its promise has no handler: a rejection (\<open>Inl\<close>)
  would end the process.
\<close>

definition startup :: "json \<Rightarrow> server \<Rightarrow> js_error + server" where
  "startup J st =
     (case getUserRecord J st of
        (Inl e, st1) \<Rightarrow> Inl e
      | (Inr r, st1) \<Rightarrow>
          if r = Null \<or> r = Undefined
          then Inr (st1\<lparr>userRecord := default_record\<rparr>)
          else Inr (st1\<lparr>userRecord := r\<rparr>))"

text \<open>
  \<^verbatim>\<open>updateUserRecord\<close> (lines 80-92). The assignment \<^verbatim>\<open>userRecord[key] = val\<close> stands
  before the \<^verbatim>\<open>try\<close>: its \<^verbatim>\<open>TypeError\<close> rejects the call. Inside the \<^verbatim>\<open>try\<close>,
  \<^verbatim>\<open>fs.writeFile\<close> refuses the data \<^verbatim>\<open>undefined\<close> with a \<^verbatim>\<open>TypeError\<close>, and every
  error ends in the \<^verbatim>\<open>catch\<close> block, which logs it and returns normally.
\<close>

definition updateUserRecord ::
  "json \<Rightarrow> write_outcome \<Rightarrow> string \<Rightarrow> jsval \<Rightarrow> server \<Rightarrow> js_error + server" where
  "updateUserRecord J w key val st =
     (case set_prop (userRecord st) key val of
        Inl e \<Rightarrow> Inl e
      | Inr r \<Rightarrow>
          (let st1 = st\<lparr>userRecord := r\<rparr> in
           case JSON_stringify J r of
             None \<Rightarrow> Inr (emit (Console [Txt ''Got an error: '', Err TypeError]) st1)
           | Some dataToWrite \<Rightarrow>
               (case w of
                  WriteOk \<Rightarrow>
                    Inr (emit (Console [Txt (''User record '' @ dataToWrite @ '' written to file.'')])
                          (emit (FsWrite dataToWrite w)
                            (st1\<lparr>user_data_file := Content dataToWrite\<rparr>)))
                | WriteFails e d \<Rightarrow>
                    Inr (emit (Console [Txt ''Got an error: '', Err e])
                          (emit (FsWrite dataToWrite w) (st1\<lparr>user_data_file := d\<rparr>))))))"

section \<open>Responses and the error responder\<close>

text \<open>\<^verbatim>\<open>res.json(body)\<close>: the status is the default 200.\<close>

definition res_json :: "jsval \<Rightarrow> server \<Rightarrow> (js_error + reply) \<times> server" where
  "res_json body st = (Inr (Reply 200 body), emit (Responded (Reply 200 body)) st)"

text \<open>\<^verbatim>\<open>err.response\<close> of an error that reaches \<^verbatim>\<open>errorHandler\<close>.\<close>

fun error_response :: "js_error \<Rightarrow> jsval" where
  "error_response (RemoteError ps) =
     (case map_of ps ''response'' of None \<Rightarrow> Undefined | Some v \<Rightarrow> v)"
| "error_response (SystemError c) = Undefined"
| "error_response TypeError = Undefined"
| "error_response SyntaxError = Undefined"

text \<open>\<^verbatim>\<open>err.response?.data\<close>.\<close>

definition response_data :: "js_error \<Rightarrow> jsval" where
  "response_data err =
     (if nullish (error_response err) then Undefined
      else (case get_prop (error_response err) ''data'' of
              Inl e \<Rightarrow> Undefined
            | Inr d \<Rightarrow> d))"

text \<open>
  \<^verbatim>\<open>res.status(code).send(body)\<close> in Express 4: a body that is a number replaces the
  status code; every other body is sent with the status \<open>code\<close>.
\<close>

definition res_status_send :: "nat \<Rightarrow> jsval \<Rightarrow> server \<Rightarrow> reply \<times> server" where
  "res_status_send code body st =
     (case body of
        Num n \<Rightarrow> (StatusOnly n, emit (Responded (StatusOnly n)) st)
      | _ \<Rightarrow> (Reply code body, emit (Responded (Reply code body)) st))"

text \<open>\<^verbatim>\<open>errorHandler\<close> (lines 361-372).\<close>

definition errorHandler :: "js_error \<Rightarrow> server \<Rightarrow> reply \<times> server" where
  "errorHandler err st =
     (let st1 = emit (Console [Txt ''Your error:'']) st;
          st2 = emit (Console [Err err]) st1
      in if \<not> nullish (response_data err)
         then res_status_send 500 (response_data err) st2
         else res_status_send 500
                (Obj [(''error_code'', Str ''OTHER_ERROR''),
                      (''error_message'', Str ''I got some other message on the server.'')])
                st2)"

text \<open>
  \<^verbatim>\<open>app.use(errorHandler)\<close> (line 373): Express hands the error of a \<^verbatim>\<open>next(error)\<close>
  to the error responder. Every error of this model is an object, hence truthy.
\<close>

definition app_use_errorHandler :: "(js_error + reply) \<times> server \<Rightarrow> reply \<times> server" where
  "app_use_errorHandler r =
     (case r of
        (Inr rep, st) \<Rightarrow> (rep, st)
      | (Inl error, st) \<Rightarrow> errorHandler error st)"

section \<open>The request handlers\<close>

text \<open>
  Each handler is the body of its \<^verbatim>\<open>try\<close> block; \<open>Inl error\<close> is the \<^verbatim>\<open>catch\<close> block's
  \<^verbatim>\<open>next(error)\<close>, with the state as it is when the error is thrown. The definitions of
  this section run a handler from its request to its response, with nothing else
  happening at its \<^verbatim>\<open>await\<close>s; the section on the event loop splits the handlers there.
\<close>

text \<open>\<^verbatim>\<open>GET /server/get_user_info\<close> (lines 97-105).\<close>

definition get_user_info :: "server \<Rightarrow> (js_error + reply) \<times> server" where
  "get_user_info st =
     (case get_prop (userRecord st) FIELD_USER_STATUS of
        Inl e \<Rightarrow> (Inl e, st)
      | Inr status \<Rightarrow> res_json (Obj [(''user_status'', status)]) st)"

text \<open>\<^verbatim>\<open>POST /server/generate_link_token\<close> (lines 119-128).\<close>

definition generate_link_token :: "plaid \<Rightarrow> server \<Rightarrow> (js_error + reply) \<times> server" where
  "generate_link_token P st =
     (let st1 = emit (RemoteCall ''linkTokenCreate'' (basicLinkTokenObject st)) st in
      case linkTokenCreate P (basicLinkTokenObject st) of
        Inl e \<Rightarrow> (Inl e, emit (Console [Txt ''Running into an error!'']) st1)
      | Inr response \<Rightarrow>
          (let st2 = emit (Console [Val (basicLinkTokenObject st)]) st1 in
           case get_prop response ''data'' of
             Inl e \<Rightarrow> (Inl e, emit (Console [Txt ''Running into an error!'']) st2)
           | Inr d \<Rightarrow> res_json d st2))"

text \<open>\<^verbatim>\<open>POST /server/swap_public_token\<close> (lines 134-147).\<close>

definition swap_public_token ::
  "plaid \<Rightarrow> json \<Rightarrow> write_outcome \<Rightarrow> write_outcome \<Rightarrow> jsval \<Rightarrow> server
     \<Rightarrow> (js_error + reply) \<times> server" where
  "swap_public_token P J w1 w2 body st =
     (case get_prop body ''public_token'' of
        Inl e \<Rightarrow> (Inl e, st)
      | Inr public_token \<Rightarrow>
     (let st1 = emit (RemoteCall ''itemPublicTokenExchange''
                        (Obj [(''public_token'', public_token)])) st in
      case itemPublicTokenExchange P (Obj [(''public_token'', public_token)]) of
        Inl e \<Rightarrow> (Inl e, st1)
      | Inr response \<Rightarrow>
     (case get_prop response ''data'' of
        Inl e \<Rightarrow> (Inl e, st1)
      | Inr d \<Rightarrow>
     (let st2 = emit (Console [Txt (''You got back '' @
                        (case JSON_stringify J d of None \<Rightarrow> ''undefined'' | Some s \<Rightarrow> s))]) st1 in
      case get_prop d ''access_token'' of
        Inl e \<Rightarrow> (Inl e, st2)
      | Inr access_token \<Rightarrow>
     (case updateUserRecord J w1 FIELD_ACCESS_TOKEN access_token st2 of
        Inl e \<Rightarrow> (Inl e, st2)
      | Inr st3 \<Rightarrow>
     (case updateUserRecord J w2 FIELD_USER_STATUS (Str ''connected'') st3 of
        Inl e \<Rightarrow> (Inl e, st3)
      | Inr st4 \<Rightarrow> res_json (Obj [(''status'', Str ''success'')]) st4))))))"

text \<open>
  \<^verbatim>\<open>GET /server/transactions\<close> (lines 152-168). \<open>startDate\<close> and \<open>endDate\<close> are the two
  dates that \<^verbatim>\<open>moment()\<close> formats at the time of the request.
\<close>

definition transactions ::
  "plaid \<Rightarrow> string \<Rightarrow> string \<Rightarrow> server \<Rightarrow> (js_error + reply) \<times> server" where
  "transactions P startDate endDate st =
     (case get_prop (userRecord st) FIELD_ACCESS_TOKEN of
        Inl e \<Rightarrow> (Inl e, st)
      | Inr access_token \<Rightarrow>
     (let request = Obj [(''access_token'', access_token),
                         (''start_date'', Str startDate),
                         (''end_date'', Str endDate),
                         (''options'', Obj [(''count'', Num ''10'')])];
          st1 = emit (RemoteCall ''transactionsGet'' request) st in
      case transactionsGet P request of
        Inl e \<Rightarrow> (Inl e, st1)
      | Inr transactionResponse \<Rightarrow>
     (case get_prop transactionResponse ''data'' of
        Inl e \<Rightarrow> (Inl e, st1)
      | Inr d \<Rightarrow> res_json d st1)))"

text \<open>\<^verbatim>\<open>GET /server/balances\<close> (lines 171-184).\<close>

definition balances :: "plaid \<Rightarrow> server \<Rightarrow> (js_error + reply) \<times> server" where
  "balances P st =
     (case get_prop (userRecord st) FIELD_ACCESS_TOKEN of
        Inl e \<Rightarrow> (Inl e, st)
      | Inr access_token \<Rightarrow>
     (let request = Obj [(''access_token'', access_token),
                         (''options'', Obj [(''min_last_updated_datetime'',
                                             Str ''2020-01-01T00:00:00Z'')])];
          st1 = emit (RemoteCall ''accountsBalanceGet'' request) st in
      case accountsBalanceGet P request of
        Inl e \<Rightarrow> (Inl e, st1)
      | Inr balanceResponse \<Rightarrow>
     (case get_prop balanceResponse ''data'' of
        Inl e \<Rightarrow> (Inl e, st1)
      | Inr d \<Rightarrow> res_json d st1)))"

text \<open>\<^verbatim>\<open>GET /server/create_asset_report\<close> (lines 190-205).\<close>

definition create_asset_report :: "plaid \<Rightarrow> server \<Rightarrow> (js_error + reply) \<times> server" where
  "create_asset_report P st =
     (case get_prop (userRecord st) FIELD_ACCESS_TOKEN of
        Inl e \<Rightarrow> (Inl e, st)
      | Inr access_token \<Rightarrow>
     (let request = Obj [(''access_tokens'', Arr [access_token] []),
                         (''days_requested'', Num ''30''),
                         (''options'',
                            Obj [(''user'', Obj [(''first_name'', Str ''Jane''),
                                                 (''last_name'', Str ''Foster'')]),
                                 (''webhook'', webhookUrl st)])];
          st1 = emit (RemoteCall ''assetReportCreate'' request) st in
      case assetReportCreate P request of
        Inl e \<Rightarrow> (Inl e, st1)
      | Inr reportResponse \<Rightarrow>
     (case get_prop reportResponse ''data'' of
        Inl e \<Rightarrow> (Inl e, st1)
      | Inr d \<Rightarrow> res_json d st1)))"

text \<open>
  Modelled from the spec: the constants \<^verbatim>\<open>WebhookType.Item\<close>,
  \<^verbatim>\<open>WebhookType.Transactions\<close> and \<^verbatim>\<open>WebhookType.Assets\<close> of the \<^verbatim>\<open>plaid\<close> package,
  which the source imports; the spec names the three product types \<^verbatim>\<open>ITEM\<close>,
  \<^verbatim>\<open>TRANSACTIONS\<close> and \<^verbatim>\<open>ASSETS\<close>.
\<close>

definition WebhookType_Item :: jsval where
  "WebhookType_Item = Str ''ITEM''"

definition WebhookType_Transactions :: jsval where
  "WebhookType_Transactions = Str ''TRANSACTIONS''"

definition WebhookType_Assets :: jsval where
  "WebhookType_Assets = Str ''ASSETS''"

text \<open>
  \<^verbatim>\<open>POST /server/fire_test_webhook\<close> (lines 211-224). \<open>AuthDataUpdate\<close> is the
  constant \<^verbatim>\<open>SandboxItemFireWebhookRequestWebhookCodeEnum.AuthDataUpdate\<close> of the
  \<^verbatim>\<open>plaid\<close> package.
\<close>

definition fire_test_webhook ::
  "plaid \<Rightarrow> jsval \<Rightarrow> server \<Rightarrow> (js_error + reply) \<times> server" where
  "fire_test_webhook P AuthDataUpdate st =
     (case get_prop (userRecord st) FIELD_ACCESS_TOKEN of
        Inl e \<Rightarrow> (Inl e, st)
      | Inr access_token \<Rightarrow>
     (let request = Obj [(''access_token'', access_token),
                         (''webhook_type'', WebhookType_Item),
                         (''webhook_code'', AuthDataUpdate)];
          st1 = emit (RemoteCall ''sandboxItemFireWebhook'' request) st in
      case sandboxItemFireWebhook P request of
        Inl e \<Rightarrow> (Inl e, st1)
      | Inr fireTestWebhook \<Rightarrow>
     (case get_prop fireTestWebhook ''data'' of
        Inl e \<Rightarrow> (Inl e, st1)
      | Inr d \<Rightarrow> res_json d st1)))"

text \<open>\<^verbatim>\<open>POST /server/update_webhook\<close> (lines 229-243).\<close>

definition update_webhook :: "plaid \<Rightarrow> jsval \<Rightarrow> server \<Rightarrow> (js_error + reply) \<times> server" where
  "update_webhook P body st =
     (case get_prop body ''newUrl'' of
        Inl e \<Rightarrow> (Inl e, st)
      | Inr newUrl \<Rightarrow>
     (let st1 = st\<lparr>webhookUrl := newUrl\<rparr> in
      case get_prop (userRecord st1) FIELD_ACCESS_TOKEN of
        Inl e \<Rightarrow> (Inl e, st1)
      | Inr access_token \<Rightarrow>
     (let request = Obj [(''access_token'', access_token), (''webhook'', webhookUrl st1)];
          st2 = emit (RemoteCall ''itemWebhookUpdate'' request) st1 in
      case itemWebhookUpdate P request of
        Inl e \<Rightarrow> (Inl e, st2)
      | Inr updateWebhook \<Rightarrow>
     (case get_prop updateWebhook ''data'' of
        Inl e \<Rightarrow> (Inl e, st2)
      | Inr d \<Rightarrow> res_json d st2))))"

section \<open>Webhook dispatch\<close>

text \<open>
  \<^verbatim>\<open>console.log(`pre${v}post`)\<close>: the conversion of \<open>v\<close> may throw, and then nothing
  is logged.
\<close>

definition console_log_template ::
  "string \<Rightarrow> jsval \<Rightarrow> string \<Rightarrow> server \<Rightarrow> js_error + server" where
  "console_log_template pre v post st =
     (case ToString v of
        None \<Rightarrow> Inl TypeError
      | Some s \<Rightarrow> Inr (emit (Console [Txt (pre @ s @ post)]) st))"

text \<open>\<^verbatim>\<open>handleItemWebhook\<close> (lines 278-307).\<close>

definition handleItemWebhook :: "jsval \<Rightarrow> jsval \<Rightarrow> server \<Rightarrow> js_error + server" where
  "handleItemWebhook code requestBody st =
     (if code = Str ''ERROR'' then
        (case get_prop requestBody ''error'' of
           Inl e \<Rightarrow> Inl e
         | Inr error \<Rightarrow>
             (case get_prop error ''error_message'' of
                Inl e \<Rightarrow> Inl e
              | Inr error_message \<Rightarrow>
                  console_log_template ''I received this error: '' error_message
                    ''| should probably ask this user to connect to their bank'' st))
      else if code = Str ''NEW_ACCOUNTS_AVAILABLE'' then
        (case get_prop requestBody ''item_id'' of
           Inl e \<Rightarrow> Inl e
         | Inr item_id \<Rightarrow>
             console_log_template
               ''There are new accounts available at this Financial Institution! (Id: ''
               item_id
               '') We might want to ask the user to share them with us'' st)
      else if code = Str ''PENDING_EXPIRATION'' then
        Inr (emit (Console [Txt ''We should tell our user to reconnect their bank with Plaid so there's no disruption to their service'']) st)
      else if code = Str ''USER_PERMISSION_REVOKED'' then
        Inr (emit (Console [Txt ''The user revoked access to this item. We should remove it from our records'']) st)
      else if code = Str ''WEBHOOK_UPDATE_ACKNOWLEDGED'' then
        Inr (emit (Console [Txt ''Hooray! You found the right spot!'']) st)
      else console_log_template ''Can't handle webhook code '' code [] st)"

text \<open>\<^verbatim>\<open>handleTransactionsWebhook\<close> (lines 310-341).\<close>

definition handleTransactionsWebhook :: "jsval \<Rightarrow> jsval \<Rightarrow> server \<Rightarrow> js_error + server" where
  "handleTransactionsWebhook code requestBody st =
     (if code = Str ''INITIAL_UPDATE'' then
        (case get_prop requestBody ''new_transactions'' of
           Inl e \<Rightarrow> Inl e
         | Inr n \<Rightarrow>
             console_log_template ''First patch of transactions are done. There's '' n
               '' available'' st)
      else if code = Str ''HISTORICAL_UPDATE'' then
        (case get_prop requestBody ''new_transactions'' of
           Inl e \<Rightarrow> Inl e
         | Inr n \<Rightarrow>
             console_log_template ''Historical transactions are done. There's '' n
               '' available'' st)
      else if code = Str ''DEFAULT_UPDATE'' then
        (case get_prop requestBody ''new_transactions'' of
           Inl e \<Rightarrow> Inl e
         | Inr n \<Rightarrow>
             console_log_template ''New data is here! There's '' n '' available'' st)
      else if code = Str ''TRANSACTIONS_REMOVED'' then
        Inr (emit (Console [Txt ''Looks like a few transactions have been reversed and should be removed from our records'']) st)
      else if code = Str ''SYNC_UPDATES_AVAILABLE'' then
        Inr (emit (Console [Txt ''There are new updates available for the Transactions Sync API'']) st)
      else console_log_template ''Can't handle webhook code '' code [] st)"

text \<open>\<^verbatim>\<open>handleAssetsWebhook\<close> (lines 343-359).\<close>

definition handleAssetsWebhook :: "jsval \<Rightarrow> jsval \<Rightarrow> server \<Rightarrow> js_error + server" where
  "handleAssetsWebhook code requestBody st =
     (if code = Str ''PRODUCT_READY'' then
        (case get_prop requestBody ''asset_report_id'' of
           Inl e \<Rightarrow> Inl e
         | Inr asset_report_id \<Rightarrow>
             console_log_template ''Looks like asset report '' asset_report_id
               '' is ready to download'' st)
      else if code = Str ''ERROR'' then
        (case get_prop requestBody ''error'' of
           Inl e \<Rightarrow> Inl e
         | Inr error \<Rightarrow>
             (case get_prop error ''error_message'' of
                Inl e \<Rightarrow> Inl e
              | Inr error_message \<Rightarrow>
                  console_log_template ''I had an error generating this report: ''
                    error_message [] st))
      else console_log_template ''Can't handle webhook code '' code [] st)"

text \<open>
  The \<^verbatim>\<open>switch (product)\<close> of the webhook route (lines 257-270). It compares with
  \<^verbatim>\<open>===\<close>, which on the string labels is equality of values.
\<close>

definition switch_product :: "jsval \<Rightarrow> jsval \<Rightarrow> jsval \<Rightarrow> server \<Rightarrow> js_error + server" where
  "switch_product product code body st =
     (if product = WebhookType_Item then handleItemWebhook code body st
      else if product = WebhookType_Transactions then handleTransactionsWebhook code body st
      else if product = WebhookType_Assets then handleAssetsWebhook code body st
      else console_log_template ''Can't handle webhook product '' product [] st)"

text \<open>\<^verbatim>\<open>POST /server/receive_webhook\<close> (lines 248-276).\<close>

definition receive_webhook :: "jsval \<Rightarrow> server \<Rightarrow> (js_error + reply) \<times> server" where
  "receive_webhook body st =
     (let st1 = emit (Console [Txt ''this is the webhook response'']) st;
          st2 = emit (Console [Val body]) st1 in
      case get_prop body ''webhook_type'' of
        Inl e \<Rightarrow> (Inl e, st2)
      | Inr product \<Rightarrow>
     (case get_prop body ''webhook_code'' of
        Inl e \<Rightarrow> (Inl e, st2)
      | Inr code \<Rightarrow>
     (case switch_product product code body st2 of
        Inl e \<Rightarrow> (Inl e, st2)
      | Inr st3 \<Rightarrow> res_json (Obj [(''status'', Str ''received'')]) st3)))"

section \<open>A handler run alone\<close>

text \<open>
  A request, with what the environment decides while it is handled: the outcomes of the
  two writes of a token swap, the dates of a transactions query.
\<close>

datatype request =
    GetUserInfo
  | GenerateLinkToken
  | SwapPublicToken jsval write_outcome write_outcome
  | Transactions string string
  | Balances
  | CreateAssetReport
  | FireTestWebhook
  | UpdateWebhook jsval
  | ReceiveWebhook jsval

fun handle :: "plaid \<Rightarrow> json \<Rightarrow> jsval \<Rightarrow> request \<Rightarrow> server \<Rightarrow> reply \<times> server" where
  "handle P J A GetUserInfo st = app_use_errorHandler (get_user_info st)"
| "handle P J A GenerateLinkToken st = app_use_errorHandler (generate_link_token P st)"
| "handle P J A (SwapPublicToken body w1 w2) st =
     app_use_errorHandler (swap_public_token P J w1 w2 body st)"
| "handle P J A (Transactions startDate endDate) st =
     app_use_errorHandler (transactions P startDate endDate st)"
| "handle P J A Balances st = app_use_errorHandler (balances P st)"
| "handle P J A CreateAssetReport st = app_use_errorHandler (create_asset_report P st)"
| "handle P J A FireTestWebhook st = app_use_errorHandler (fire_test_webhook P A st)"
| "handle P J A (UpdateWebhook body) st = app_use_errorHandler (update_webhook P body st)"
| "handle P J A (ReceiveWebhook body) st = app_use_errorHandler (receive_webhook body st)"

section \<open>The event loop\<close>

text \<open>
  Node runs the handlers on one thread. A handler runs until it responds or reaches an
  \<^verbatim>\<open>await\<close> on the remote service or on the file system; there it is suspended, other
  requests are accepted and other suspended handlers woken, until the environment
  delivers the result it waits for. A suspended piece of the program is a \<open>task\<close>:
  the start-up block waiting for \<^verbatim>\<open>fs.readFile\<close>, a handler waiting for a call of the
  Plaid client (the operation and its request), the token swap waiting inside its first
  or its second \<^verbatim>\<open>updateUserRecord\<close> for \<^verbatim>\<open>fs.writeFile\<close> (with the text
  \<^verbatim>\<open>dataToWrite\<close>, computed before the \<^verbatim>\<open>await\<close>). An \<^verbatim>\<open>await\<close> that only passes through
  the microtask queue (on a value that is no promise, or on an \<^verbatim>\<open>async\<close> function that
  has returned) lets no request in and is no suspension.
\<close>

datatype remote_op =
    LinkTokenCreate
  | ItemPublicTokenExchange
  | TransactionsGet
  | AccountsBalanceGet
  | AssetReportCreate
  | SandboxItemFireWebhook
  | ItemWebhookUpdate

datatype task =
    AwaitReadFile
  | AwaitRemote remote_op jsval
  | AwaitWriteAccessToken "string option"
  | AwaitWriteUserStatus "string option"

text \<open>What the environment delivers to a suspended task.\<close>

datatype wake = ReadDone | RemoteDone "js_error + jsval" | WriteDone write_outcome

text \<open>
  How a piece of the program ends: suspended at the next \<^verbatim>\<open>await\<close>, with a response, or
  (the start-up block) without one.
\<close>

datatype progress = Suspended task | Responds reply | Ends

datatype incoming =
    GET_get_user_info
  | POST_generate_link_token
  | POST_swap_public_token jsval
  | GET_transactions string string
  | GET_balances
  | GET_create_asset_report
  | POST_fire_test_webhook
  | POST_update_webhook jsval
  | POST_receive_webhook jsval

definition respond :: "(js_error + reply) \<times> server \<Rightarrow> progress \<times> server" where
  "respond r = (case app_use_errorHandler r of (rep, st) \<Rightarrow> (Responds rep, st))"

text \<open>
  A request arrives: its handler runs up to its first suspension. \<open>A\<close> is the constant
  \<^verbatim>\<open>SandboxItemFireWebhookRequestWebhookCodeEnum.AuthDataUpdate\<close>.
\<close>

fun arrive :: "jsval \<Rightarrow> incoming \<Rightarrow> server \<Rightarrow> progress \<times> server" where
  "arrive A GET_get_user_info st = respond (get_user_info st)"
| "arrive A POST_generate_link_token st =
     (Suspended (AwaitRemote LinkTokenCreate (basicLinkTokenObject st)),
      emit (RemoteCall ''linkTokenCreate'' (basicLinkTokenObject st)) st)"
| "arrive A (POST_swap_public_token body) st =
     (case get_prop body ''public_token'' of
        Inl e \<Rightarrow> respond (Inl e, st)
      | Inr public_token \<Rightarrow>
          (Suspended (AwaitRemote ItemPublicTokenExchange (Obj [(''public_token'', public_token)])),
           emit (RemoteCall ''itemPublicTokenExchange''
                   (Obj [(''public_token'', public_token)])) st))"
| "arrive A (GET_transactions startDate endDate) st =
     (case get_prop (userRecord st) FIELD_ACCESS_TOKEN of
        Inl e \<Rightarrow> respond (Inl e, st)
      | Inr access_token \<Rightarrow>
     (let request = Obj [(''access_token'', access_token),
                         (''start_date'', Str startDate),
                         (''end_date'', Str endDate),
                         (''options'', Obj [(''count'', Num ''10'')])]
      in (Suspended (AwaitRemote TransactionsGet request),
          emit (RemoteCall ''transactionsGet'' request) st)))"
| "arrive A GET_balances st =
     (case get_prop (userRecord st) FIELD_ACCESS_TOKEN of
        Inl e \<Rightarrow> respond (Inl e, st)
      | Inr access_token \<Rightarrow>
     (let request = Obj [(''access_token'', access_token),
                         (''options'', Obj [(''min_last_updated_datetime'',
                                             Str ''2020-01-01T00:00:00Z'')])]
      in (Suspended (AwaitRemote AccountsBalanceGet request),
          emit (RemoteCall ''accountsBalanceGet'' request) st)))"
| "arrive A GET_create_asset_report st =
     (case get_prop (userRecord st) FIELD_ACCESS_TOKEN of
        Inl e \<Rightarrow> respond (Inl e, st)
      | Inr access_token \<Rightarrow>
     (let request = Obj [(''access_tokens'', Arr [access_token] []),
                         (''days_requested'', Num ''30''),
                         (''options'',
                            Obj [(''user'', Obj [(''first_name'', Str ''Jane''),
                                                 (''last_name'', Str ''Foster'')]),
                                 (''webhook'', webhookUrl st)])]
      in (Suspended (AwaitRemote AssetReportCreate request),
          emit (RemoteCall ''assetReportCreate'' request) st)))"
| "arrive A POST_fire_test_webhook st =
     (case get_prop (userRecord st) FIELD_ACCESS_TOKEN of
        Inl e \<Rightarrow> respond (Inl e, st)
      | Inr access_token \<Rightarrow>
     (let request = Obj [(''access_token'', access_token),
                         (''webhook_type'', WebhookType_Item),
                         (''webhook_code'', A)]
      in (Suspended (AwaitRemote SandboxItemFireWebhook request),
          emit (RemoteCall ''sandboxItemFireWebhook'' request) st)))"
| "arrive A (POST_update_webhook body) st =
     (case get_prop body ''newUrl'' of
        Inl e \<Rightarrow> respond (Inl e, st)
      | Inr newUrl \<Rightarrow>
     (let st1 = st\<lparr>webhookUrl := newUrl\<rparr> in
      case get_prop (userRecord st1) FIELD_ACCESS_TOKEN of
        Inl e \<Rightarrow> respond (Inl e, st1)
      | Inr access_token \<Rightarrow>
     (let request = Obj [(''access_token'', access_token), (''webhook'', webhookUrl st1)]
      in (Suspended (AwaitRemote ItemWebhookUpdate request),
          emit (RemoteCall ''itemWebhookUpdate'' request) st1))))"
| "arrive A (POST_receive_webhook body) st = respond (receive_webhook body st)"

text \<open>
  The rest of \<^verbatim>\<open>updateUserRecord\<close> after its \<^verbatim>\<open>await\<close> (lines 84-91), when the write
  has succeeded or failed; without a text (\<^verbatim>\<open>dataToWrite\<close> is \<^verbatim>\<open>undefined\<close>)
  \<^verbatim>\<open>fs.writeFile\<close> has rejected with a \<^verbatim>\<open>TypeError\<close>.
\<close>

definition write_completes :: "string option \<Rightarrow> write_outcome \<Rightarrow> server \<Rightarrow> server" where
  "write_completes dataToWrite w st =
     (case dataToWrite of
        None \<Rightarrow> emit (Console [Txt ''Got an error: '', Err TypeError]) st
      | Some text \<Rightarrow>
          (case w of
             WriteOk \<Rightarrow>
               emit (Console [Txt (''User record '' @ text @ '' written to file.'')])
                 (emit (FsWrite text w) (st\<lparr>user_data_file := Content text\<rparr>))
           | WriteFails e d \<Rightarrow>
               emit (Console [Txt ''Got an error: '', Err e])
                 (emit (FsWrite text w) (st\<lparr>user_data_file := d\<rparr>))))"

text \<open>
  The rest of the five handlers that relay the response of the remote service (lines
  164-167, 180-183, 201-204, 219-223, 239-242).
\<close>

definition relay :: "js_error + jsval \<Rightarrow> server \<Rightarrow> progress \<times> server" where
  "relay r st =
     (case r of
        Inl e \<Rightarrow> respond (Inl e, st)
      | Inr response \<Rightarrow>
          (case get_prop response ''data'' of
             Inl e \<Rightarrow> respond (Inl e, st)
           | Inr d \<Rightarrow> respond (res_json d st)))"

text \<open>
  A suspended task is woken with what the environment delivers, and runs up to its next
  suspension: the start-up block to its end (lines 52-54, 68-73; a rejection would end
  the process), \<^verbatim>\<open>generate_link_token\<close> from line 122, the token swap from line 139 into
  its first \<^verbatim>\<open>updateUserRecord\<close>, from there into the second, and from there to its
  response. \<open>None\<close>: this task does not wait for that.
\<close>

fun resume :: "json \<Rightarrow> task \<Rightarrow> wake \<Rightarrow> server \<Rightarrow> (progress \<times> server) option" where
  "resume J AwaitReadFile ReadDone st =
     (case startup J st of Inl e \<Rightarrow> None | Inr st' \<Rightarrow> Some (Ends, st'))"
| "resume J (AwaitRemote LinkTokenCreate request) (RemoteDone r) st =
     Some (case r of
        Inl e \<Rightarrow> respond (Inl e, emit (Console [Txt ''Running into an error!'']) st)
      | Inr response \<Rightarrow>
          (let st2 = emit (Console [Val (basicLinkTokenObject st)]) st in
           case get_prop response ''data'' of
             Inl e \<Rightarrow> respond (Inl e, emit (Console [Txt ''Running into an error!'']) st2)
           | Inr d \<Rightarrow> respond (res_json d st2)))"
| "resume J (AwaitRemote ItemPublicTokenExchange request) (RemoteDone r) st =
     Some (case r of
        Inl e \<Rightarrow> respond (Inl e, st)
      | Inr response \<Rightarrow>
     (case get_prop response ''data'' of
        Inl e \<Rightarrow> respond (Inl e, st)
      | Inr d \<Rightarrow>
     (let st2 = emit (Console [Txt (''You got back '' @
                        (case JSON_stringify J d of None \<Rightarrow> ''undefined'' | Some s \<Rightarrow> s))]) st in
      case get_prop d ''access_token'' of
        Inl e \<Rightarrow> respond (Inl e, st2)
      | Inr access_token \<Rightarrow>
     (case set_prop (userRecord st2) FIELD_ACCESS_TOKEN access_token of
        Inl e \<Rightarrow> respond (Inl e, st2)
      | Inr r' \<Rightarrow>
          (Suspended (AwaitWriteAccessToken (JSON_stringify J r')),
           st2\<lparr>userRecord := r'\<rparr>)))))"
| "resume J (AwaitWriteAccessToken dataToWrite) (WriteDone w) st =
     Some (let st3 = write_completes dataToWrite w st in
      case set_prop (userRecord st3) FIELD_USER_STATUS (Str ''connected'') of
        Inl e \<Rightarrow> respond (Inl e, st3)
      | Inr r' \<Rightarrow>
          (Suspended (AwaitWriteUserStatus (JSON_stringify J r')),
           st3\<lparr>userRecord := r'\<rparr>))"
| "resume J (AwaitWriteUserStatus dataToWrite) (WriteDone w) st =
     Some (respond (res_json (Obj [(''status'', Str ''success'')])
                      (write_completes dataToWrite w st)))"
| "resume J (AwaitRemote TransactionsGet request) (RemoteDone r) st = Some (relay r st)"
| "resume J (AwaitRemote AccountsBalanceGet request) (RemoteDone r) st = Some (relay r st)"
| "resume J (AwaitRemote AssetReportCreate request) (RemoteDone r) st = Some (relay r st)"
| "resume J (AwaitRemote SandboxItemFireWebhook request) (RemoteDone r) st = Some (relay r st)"
| "resume J (AwaitRemote ItemWebhookUpdate request) (RemoteDone r) st = Some (relay r st)"
| "resume J t w st = None"

definition pending :: "progress \<Rightarrow> task multiset" where
  "pending p = (case p of Suspended t \<Rightarrow> {#t#} | Responds rep \<Rightarrow> {#} | Ends \<Rightarrow> {#})"

text \<open>
  The states of the process, each with the tasks that are suspended in it, that are
  reached from a first state and its tasks by requests that arrive and tasks that are
  woken, in any order; \<open>ok t w\<close> says which results the environment may deliver to
  which task.
\<close>

inductive reachable ::
  "(task \<Rightarrow> wake \<Rightarrow> bool) \<Rightarrow> json \<Rightarrow> jsval \<Rightarrow> server \<Rightarrow> task multiset
     \<Rightarrow> server \<Rightarrow> task multiset \<Rightarrow> bool"
  for ok :: "task \<Rightarrow> wake \<Rightarrow> bool" and J :: json and A :: jsval
    and s0 :: server and ts0 :: "task multiset" where
  at_start: "reachable ok J A s0 ts0 s0 ts0"
| request: "reachable ok J A s0 ts0 st ts \<Longrightarrow> arrive A rq st = (p, st')
     \<Longrightarrow> reachable ok J A s0 ts0 st' (ts + pending p)"
| woken: "reachable ok J A s0 ts0 st ts \<Longrightarrow> t \<in># ts \<Longrightarrow> ok t w
     \<Longrightarrow> resume J t w st = Some (p, st')
     \<Longrightarrow> reachable ok J A s0 ts0 st' (ts - {#t#} + pending p)"

text \<open>
  What the Plaid client \<open>P\<close> answers to a call, and the run of a handler alone: each
  task is woken at once, with the answer of \<open>P\<close> and with the outcomes \<open>w1\<close> and
  \<open>w2\<close> of the two writes.
\<close>

fun call :: "plaid \<Rightarrow> remote_op \<Rightarrow> jsval \<Rightarrow> js_error + jsval" where
  "call P LinkTokenCreate request = linkTokenCreate P request"
| "call P ItemPublicTokenExchange request = itemPublicTokenExchange P request"
| "call P TransactionsGet request = transactionsGet P request"
| "call P AccountsBalanceGet request = accountsBalanceGet P request"
| "call P AssetReportCreate request = assetReportCreate P request"
| "call P SandboxItemFireWebhook request = sandboxItemFireWebhook P request"
| "call P ItemWebhookUpdate request = itemWebhookUpdate P request"

fun answer :: "plaid \<Rightarrow> write_outcome \<Rightarrow> write_outcome \<Rightarrow> task \<Rightarrow> wake" where
  "answer P w1 w2 AwaitReadFile = ReadDone"
| "answer P w1 w2 (AwaitRemote op request) = RemoteDone (call P op request)"
| "answer P w1 w2 (AwaitWriteAccessToken dataToWrite) = WriteDone w1"
| "answer P w1 w2 (AwaitWriteUserStatus dataToWrite) = WriteDone w2"

definition alone ::
  "plaid \<Rightarrow> json \<Rightarrow> write_outcome \<Rightarrow> write_outcome \<Rightarrow> progress \<times> server
     \<Rightarrow> progress \<times> server" where
  "alone P J w1 w2 c =
     (case c of
        (Suspended t, st) \<Rightarrow>
          (case resume J t (answer P w1 w2 t) st of None \<Rightarrow> c | Some c' \<Rightarrow> c')
      | (Responds rep, st) \<Rightarrow> c
      | (Ends, st) \<Rightarrow> c)"

fun incoming_of :: "request \<Rightarrow> incoming" where
  "incoming_of GetUserInfo = GET_get_user_info"
| "incoming_of GenerateLinkToken = POST_generate_link_token"
| "incoming_of (SwapPublicToken body w1 w2) = POST_swap_public_token body"
| "incoming_of (Transactions startDate endDate) = GET_transactions startDate endDate"
| "incoming_of Balances = GET_balances"
| "incoming_of CreateAssetReport = GET_create_asset_report"
| "incoming_of FireTestWebhook = POST_fire_test_webhook"
| "incoming_of (UpdateWebhook body) = POST_update_webhook body"
| "incoming_of (ReceiveWebhook body) = POST_receive_webhook body"

fun first_write :: "request \<Rightarrow> write_outcome" where
  "first_write (SwapPublicToken body w1 w2) = w1"
| "first_write rq = WriteOk"

fun second_write :: "request \<Rightarrow> write_outcome" where
  "second_write (SwapPublicToken body w1 w2) = w2"
| "second_write rq = WriteOk"

section \<open>The invariant of the record and what it needs\<close>

text \<open>
  The invariant of the connection record: the status is \<^verbatim>\<open>"connected"\<close> exactly when
  the access token is neither \<^verbatim>\<open>null\<close> nor \<^verbatim>\<open>undefined\<close>.
\<close>

definition record_invariant :: "jsval \<Rightarrow> bool" where
  "record_invariant r =
     ((get_prop r FIELD_USER_STATUS = Inr (Str ''connected'')) =
      (case get_prop r FIELD_ACCESS_TOKEN of Inl e \<Rightarrow> False | Inr tok \<Rightarrow> \<not> nullish tok))"

definition has_token :: "jsval \<Rightarrow> bool" where
  "has_token r =
     (case get_prop r FIELD_ACCESS_TOKEN of Inl e \<Rightarrow> False | Inr tok \<Rightarrow> \<not> nullish tok)"

text \<open>
  A remote service whose successful token exchanges carry an access token: whenever the
  response delivered to a waiting token swap has \<^verbatim>\<open>data.access_token\<close>, it is neither
  \<^verbatim>\<open>null\<close> nor \<^verbatim>\<open>undefined\<close>.
\<close>

definition token_answers :: "task \<Rightarrow> wake \<Rightarrow> bool" where
  "token_answers t w =
     (\<forall>request response d tok.
        t = AwaitRemote ItemPublicTokenExchange request \<longrightarrow>
        w = RemoteDone (Inr response) \<longrightarrow>
        get_prop response ''data'' = Inr d \<longrightarrow>
        get_prop d ''access_token'' = Inr tok \<longrightarrow> \<not> nullish tok)"

text \<open>
  What holds of a state and its suspended tasks along every run from a start on the
  store \<open>d\<close>: while the start-up block waits, the record is \<^verbatim>\<open>undefined\<close>, the store
  is untouched and no swap is inside an update; afterwards the record has an access token
  while a swap is between its two updates, and satisfies the invariant when none is.
\<close>

definition settled :: "disk \<Rightarrow> server \<Rightarrow> task multiset \<Rightarrow> bool" where
  "settled d st ts =
     ((count ts AwaitReadFile = 1 \<and> userRecord st = Undefined \<and> user_data_file st = d
        \<and> (\<forall>x. AwaitWriteAccessToken x \<notin># ts) \<and> (\<forall>x. AwaitWriteUserStatus x \<notin># ts))
      \<or> (AwaitReadFile \<notin># ts
        \<and> ((\<exists>x. AwaitWriteAccessToken x \<in># ts) \<longrightarrow> has_token (userRecord st))
        \<and> ((\<forall>x. AwaitWriteAccessToken x \<notin># ts) \<longrightarrow> record_invariant (userRecord st))))"

section \<open>Properties used in the statements\<close>

text \<open>The events that neither call the remote service nor write the store.\<close>

fun silent :: "event \<Rightarrow> bool" where
  "silent (Console l) = True"
| "silent (Responded r) = True"
| "silent (RemoteCall n r) = False"
| "silent (FsWrite t w) = False"

text \<open>
  A step that does nothing but print one line of text, or throw a \<^verbatim>\<open>TypeError\<close>, and
  which of the two, and which line, does not depend on the state of the process.
\<close>

definition logs_only :: "(server \<Rightarrow> js_error + server) \<Rightarrow> bool" where
  "logs_only f =
     ((\<forall>st. f st = Inl TypeError) \<or> (\<exists>l. \<forall>st. f st = Inr (emit (Console [Txt l]) st)))"

section \<open>Concrete instances\<close>

text \<open>
  A fragment of the JSON codec, as a table of texts and the values they denote, and a
  remote service that exchanges every public token for the same access token,
  acknowledges nothing else and rejects every other call with a nested Plaid error.
\<close>

definition sample_docs :: "(string \<times> jsval) list" where
  \<open>sample_docs =
     [(''{"accessToken":null,"userStatus":"disconnected"}'',
       Obj [(''accessToken'', Null), (''userStatus'', Str ''disconnected'')]),
      (''{"accessToken":"access-sandbox-1","userStatus":"disconnected"}'',
       Obj [(''accessToken'', Str ''access-sandbox-1''), (''userStatus'', Str ''disconnected'')]),
      (''{"accessToken":"access-sandbox-1","userStatus":"connected"}'',
       Obj [(''accessToken'', Str ''access-sandbox-1''), (''userStatus'', Str ''connected'')]),
      (''{"access_token":"access-sandbox-1","item_id":"item-1"}'',
       Obj [(''access_token'', Str ''access-sandbox-1''), (''item_id'', Str ''item-1'')])]\<close>

definition sample_json :: json where
  "sample_json =
     \<lparr>JSON_parse = map_of sample_docs,
      JSON_stringify = map_of (map (\<lambda>(t, v). (v, t)) sample_docs)\<rparr>"

definition login_required :: js_error where
  "login_required =
     RemoteError
       [(''response'',
         Obj [(''data'', Obj [(''error_code'', Str ''ITEM_LOGIN_REQUIRED''),
                              (''error_message'', Str ''the login details have changed'')])])]"

definition sample_plaid :: plaid where
  "sample_plaid =
     \<lparr>linkTokenCreate = (\<lambda>request. Inl login_required),
      itemPublicTokenExchange =
        (\<lambda>request. Inr (Obj [(''data'', Obj [(''access_token'', Str ''access-sandbox-1''),
                                             (''item_id'', Str ''item-1'')])])),
      transactionsGet = (\<lambda>request. Inl login_required),
      accountsBalanceGet = (\<lambda>request. Inl login_required),
      assetReportCreate = (\<lambda>request. Inl login_required),
      sandboxItemFireWebhook = (\<lambda>request. Inl login_required),
      itemWebhookUpdate = (\<lambda>request. Inl login_required)\<rparr>"

text \<open>A remote service that resolves every exchange without an access token.\<close>

definition null_token_plaid :: plaid where
  "null_token_plaid =
     sample_plaid\<lparr>itemPublicTokenExchange :=
       (\<lambda>request. Inr (Obj [(''data'', Obj [(''access_token'', Null)])]))\<rparr>"

text \<open>
  The process after a start-up that finds no store, and a process whose record is
  connected.
\<close>

definition fresh :: server where
  "fresh =
     (emit (Console [Txt ''No user object found. We'll make one from scratch.''])
        (boot None Missing))\<lparr>userRecord := default_record\<rparr>"

definition connected :: server where
  "connected =
     fresh\<lparr>userRecord :=
              Obj [(''accessToken'', Str ''access-sandbox-1''), (''userStatus'', Str ''connected'')]\<rparr>"

section \<open>Properties of values and of the store\<close>

lemma get_prop_set_prop_same: "set_prop r k v = Inr r' \<Longrightarrow> get_prop r' k = Inr v"
  by (cases r) (auto simp: update_conv')

lemma get_prop_set_prop_other:
  "set_prop r k v = Inr r' \<Longrightarrow> k' \<noteq> k \<Longrightarrow> get_prop r' k' = get_prop r k'"
  by (cases r) (auto simp: update_conv')

lemma startup_total: "\<exists>st'. startup J st = Inr st'"
  by (auto simp: startup_def getUserRecord_def getUserRecord_try_def
      split: sum.splits option.splits prod.splits)

text \<open>
  C5. When the store is missing, or holds a text that \<^verbatim>\<open>JSON.parse\<close> rejects,
  \<^verbatim>\<open>getUserRecord\<close> resolves with \<^verbatim>\<open>null\<close> (it does not reject), and the start-up block
  completes with the default record \<^verbatim>\<open>{accessToken: null, userStatus: "disconnected"}\<close>,
  leaving the store as it was.
\<close>

theorem startup_missing_or_corrupt:
  assumes "user_data_file st = Missing
           \<or> (\<exists>s. user_data_file st = Content s \<and> JSON_parse J s = None)"
  shows "fst (getUserRecord J st) = Inr Null
         \<and> (\<exists>st'. startup J st = Inr st' \<and> userRecord st' = default_record
                \<and> user_data_file st' = user_data_file st)"
  using assms
  by (auto simp: startup_def getUserRecord_def getUserRecord_try_def emit_def)

theorem startup_missing_or_corrupt_witness:
  "fst (getUserRecord sample_json (boot None Missing)) = Inr Null
   \<and> startup sample_json (boot None Missing) = Inr fresh
   \<and> userRecord fresh = default_record
   \<and> JSON_parse sample_json ''{not json'' = None
   \<and> fst (getUserRecord sample_json (boot None (Content ''{not json''))) = Inr Null
   \<and> (\<exists>st'. startup sample_json (boot None (Content ''{not json'')) = Inr st'
          \<and> userRecord st' = default_record)"
  using startup_missing_or_corrupt [of "boot None Missing" sample_json]
    startup_missing_or_corrupt [of "boot None (Content ''{not json'')" sample_json]
  by (simp add: boot_def sample_json_def sample_docs_def fresh_def startup_def
      getUserRecord_def getUserRecord_try_def emit_def)

lemma set_prop_object: "set_prop x k v = Inr r \<Longrightarrow> r \<noteq> Null \<and> r \<noteq> Undefined"
  by (cases x) auto

text \<open>
  C8. Save, then load: when \<^verbatim>\<open>updateUserRecord\<close> has set a field of the record and
  written it, and the record \<open>r\<close> survives JSON serialization (parsing its text gives
  \<open>r\<close> back), then \<^verbatim>\<open>getUserRecord\<close> resolves with a record equal to \<open>r\<close>. It reads
  it from the store: it does so in every state of the process in which the store is the one
  that the save has left, whatever is in memory there, and a process that starts on that
  store has \<open>r\<close> as its record after the start-up.
\<close>

theorem save_load_roundtrip:
  assumes "set_prop (userRecord st) key val = Inr r"
    and "JSON_stringify J r = Some text"
    and "JSON_parse J text = Some r"
  shows "\<exists>st1. updateUserRecord J WriteOk key val st = Inr st1
           \<and> userRecord st1 = r
           \<and> user_data_file st1 = Content text
           \<and> fst (getUserRecord J st1) = Inr r
           \<and> (\<forall>st'. user_data_file st' = user_data_file st1 \<longrightarrow>
                 fst (getUserRecord J st') = Inr r)
           \<and> (\<exists>s. startup J (boot env (user_data_file st1)) = Inr s \<and> userRecord s = r)"
  using assms set_prop_object [OF assms(1)]
  by (simp add: updateUserRecord_def getUserRecord_def getUserRecord_try_def startup_def
      boot_def emit_def)

theorem save_load_roundtrip_witness:
  "set_prop (userRecord fresh) FIELD_ACCESS_TOKEN (Str ''access-sandbox-1'')
     = Inr (Obj [(''accessToken'', Str ''access-sandbox-1''),
                 (''userStatus'', Str ''disconnected'')])
   \<and> (\<exists>st1. updateUserRecord sample_json WriteOk FIELD_ACCESS_TOKEN
               (Str ''access-sandbox-1'') fresh = Inr st1
         \<and> fst (getUserRecord sample_json st1)
             = Inr (Obj [(''accessToken'', Str ''access-sandbox-1''),
                         (''userStatus'', Str ''disconnected'')])
         \<and> fst (getUserRecord sample_json (boot None (user_data_file st1)))
             = Inr (Obj [(''accessToken'', Str ''access-sandbox-1''),
                         (''userStatus'', Str ''disconnected'')])
         \<and> (\<exists>s. startup sample_json (boot None (user_data_file st1)) = Inr s
               \<and> userRecord s = Obj [(''accessToken'', Str ''access-sandbox-1''),
                                     (''userStatus'', Str ''disconnected'')]))"
proof -
  let ?r = "Obj [(''accessToken'', Str ''access-sandbox-1''),
                 (''userStatus'', Str ''disconnected'')]"
  let ?t = \<open>''{"accessToken":"access-sandbox-1","userStatus":"disconnected"}''\<close>
  have h1: "set_prop (userRecord fresh) FIELD_ACCESS_TOKEN (Str ''access-sandbox-1'') = Inr ?r"
    by (simp add: fresh_def boot_def default_record_def FIELD_ACCESS_TOKEN_def
        FIELD_USER_STATUS_def emit_def)
  have h2: "JSON_stringify sample_json ?r = Some ?t"
    by (simp add: sample_json_def sample_docs_def)
  have h3: "JSON_parse sample_json ?t = Some ?r"
    by (simp add: sample_json_def sample_docs_def)
  from save_load_roundtrip [OF h1 h2 h3, of None] obtain st1 where
    a: "updateUserRecord sample_json WriteOk FIELD_ACCESS_TOKEN (Str ''access-sandbox-1'') fresh
          = Inr st1"
    and b: "fst (getUserRecord sample_json st1) = Inr ?r"
    and c: "\<forall>st'. user_data_file st' = user_data_file st1 \<longrightarrow>
              fst (getUserRecord sample_json st') = Inr ?r"
    and d: "\<exists>s. startup sample_json (boot None (user_data_file st1)) = Inr s
              \<and> userRecord s = ?r"
    by blast
  have "user_data_file (boot None (user_data_file st1)) = user_data_file st1"
    by (simp add: boot_def)
  with c have "fst (getUserRecord sample_json (boot None (user_data_file st1))) = Inr ?r"
    by blast
  with h1 a b d show ?thesis
    by blast
qed


text \<open>
  C4. An error of the remote service whose nested response data is the number 404 reaches
  the error responder: \<^verbatim>\<open>res.status(500).send(404)\<close> makes Express answer with the status
  404 and its status text, not with the status 500 and the body 404.
\<close>

theorem errorHandler_numeric_data:
  "response_data (RemoteError [(''response'', Obj [(''data'', Num ''404'')])]) = Num ''404''
   \<and> fst (errorHandler (RemoteError [(''response'', Obj [(''data'', Num ''404'')])]) fresh)
       = StatusOnly ''404''"
  by (simp add: errorHandler_def res_status_send_def response_data_def nullish_def Let_def)

lemmas sample_defs = sample_json_def sample_docs_def sample_plaid_def fresh_def connected_def
  boot_def initial_webhookUrl_def default_record_def FIELD_ACCESS_TOKEN_def FIELD_USER_STATUS_def
  login_required_def

section \<open>Updating the record\<close>

text \<open>
  C6, as the code has it. When the write of \<^verbatim>\<open>updateUserRecord\<close> fails, the error is
  printed on the console and the call still completes normally: the failure is not passed
  to the caller. The record in memory has the value just written, the store is left as
  the failed write left it.
\<close>

theorem updateUserRecord_failed_write:
  assumes "set_prop (userRecord st) key val = Inr r"
    and "JSON_stringify J r = Some text"
  shows "updateUserRecord J (WriteFails e d) key val st =
           Inr (st\<lparr>userRecord := r, user_data_file := d,
                   trace := trace st @ [FsWrite text (WriteFails e d),
                                        Console [Txt ''Got an error: '', Err e]]\<rparr>)
         \<and> get_prop r key = Inr val"
  using assms get_prop_set_prop_same [OF assms(1)]
  by (simp add: updateUserRecord_def emit_def)

theorem updateUserRecord_failed_write_witness:
  \<open>updateUserRecord sample_json (WriteFails (SystemError ''ENOSPC'') Missing)
     FIELD_ACCESS_TOKEN (Str ''access-sandbox-1'') fresh =
     Inr (fresh\<lparr>userRecord := Obj [(''accessToken'', Str ''access-sandbox-1''),
                                    (''userStatus'', Str ''disconnected'')],
                user_data_file := Missing,
                trace := trace fresh @
                  [FsWrite ''{"accessToken":"access-sandbox-1","userStatus":"disconnected"}''
                     (WriteFails (SystemError ''ENOSPC'') Missing),
                   Console [Txt ''Got an error: '', Err (SystemError ''ENOSPC'')]]\<rparr>)\<close>
proof -
  let ?r = "Obj [(''accessToken'', Str ''access-sandbox-1''),
                 (''userStatus'', Str ''disconnected'')]"
  let ?t = \<open>''{"accessToken":"access-sandbox-1","userStatus":"disconnected"}''\<close>
  have h1: "set_prop (userRecord fresh) FIELD_ACCESS_TOKEN (Str ''access-sandbox-1'') = Inr ?r"
    by (simp add: fresh_def boot_def default_record_def FIELD_ACCESS_TOKEN_def
        FIELD_USER_STATUS_def emit_def)
  have h2: "JSON_stringify sample_json ?r = Some ?t"
    by (simp add: sample_json_def sample_docs_def)
  from updateUserRecord_failed_write [OF h1 h2] show ?thesis
    by blast
qed

text \<open>
  C6 as stated asks that the failure be surfaced to the caller. At a write that fails,
  \<^verbatim>\<open>updateUserRecord\<close> does not reject, and the token swap whose two writes both fail
  answers \<^verbatim>\<open>{status: "success"}\<close>.
\<close>

theorem failed_write_not_surfaced:
  "\<not> isl (updateUserRecord sample_json (WriteFails (SystemError ''ENOSPC'') Missing)
             FIELD_ACCESS_TOKEN (Str ''access-sandbox-1'') fresh)
   \<and> fst (app_use_errorHandler
            (swap_public_token sample_plaid sample_json
               (WriteFails (SystemError ''ENOSPC'') Missing)
               (WriteFails (SystemError ''ENOSPC'') Missing)
               (Obj [(''public_token'', Str ''public-xyz'')]) fresh))
       = Reply 200 (Obj [(''status'', Str ''success'')])"
  by (simp add: updateUserRecord_def swap_public_token_def app_use_errorHandler_def res_json_def
      emit_def sample_defs)

section \<open>The token swap\<close>

text \<open>
  C2, as the code has it. When the exchange resolves with a response that has
  \<^verbatim>\<open>data.access_token\<close> and the record is an object, the handler sets the access token
  and attempts to write the store, then sets the status to \<^verbatim>\<open>"connected"\<close> and attempts
  the second write, and only then answers \<^verbatim>\<open>{status: "success"}\<close>; the record in memory
  then has that token and status. The store holds the text of that record when the second
  write succeeds.
\<close>

theorem swap_public_token_success:
  assumes "get_prop body ''public_token'' = Inr public_token"
    and "itemPublicTokenExchange P (Obj [(''public_token'', public_token)]) = Inr response"
    and "get_prop response ''data'' = Inr d"
    and "get_prop d ''access_token'' = Inr access_token"
    and "set_prop (userRecord st) FIELD_ACCESS_TOKEN access_token = Inr r1"
    and "JSON_stringify J r1 = Some t1"
    and "set_prop r1 FIELD_USER_STATUS (Str ''connected'') = Inr r2"
    and "JSON_stringify J r2 = Some t2"
  shows "\<exists>st' l0 l1 l2.
           swap_public_token P J w1 w2 body st
             = (Inr (Reply 200 (Obj [(''status'', Str ''success'')])), st')
           \<and> userRecord st' = r2
           \<and> get_prop r2 FIELD_ACCESS_TOKEN = Inr access_token
           \<and> get_prop r2 FIELD_USER_STATUS = Inr (Str ''connected'')
           \<and> trace st' = trace st @
                [RemoteCall ''itemPublicTokenExchange'' (Obj [(''public_token'', public_token)]),
                 Console l0,
                 FsWrite t1 w1, Console l1,
                 FsWrite t2 w2, Console l2,
                 Responded (Reply 200 (Obj [(''status'', Str ''success'')]))]
           \<and> (w2 = WriteOk \<longrightarrow> user_data_file st' = Content t2)"
proof -
  have a: "get_prop r2 FIELD_USER_STATUS = Inr (Str ''connected'')"
    using assms(7) by (rule get_prop_set_prop_same)
  have "get_prop r2 FIELD_ACCESS_TOKEN = get_prop r1 FIELD_ACCESS_TOKEN"
    using assms(7) by (rule get_prop_set_prop_other) (simp add: FIELD_ACCESS_TOKEN_def FIELD_USER_STATUS_def)
  then have b: "get_prop r2 FIELD_ACCESS_TOKEN = Inr access_token"
    using get_prop_set_prop_same [OF assms(5)] by simp
  show ?thesis
    using assms a b
    by (cases w1; cases w2) (simp_all add: swap_public_token_def updateUserRecord_def res_json_def emit_def Let_def)
qed

theorem swap_public_token_success_witness:
  \<open>\<exists>st'. swap_public_token sample_plaid sample_json WriteOk WriteOk
            (Obj [(''public_token'', Str ''public-xyz'')]) fresh
          = (Inr (Reply 200 (Obj [(''status'', Str ''success'')])), st')
        \<and> userRecord st' =
            Obj [(''accessToken'', Str ''access-sandbox-1''), (''userStatus'', Str ''connected'')]
        \<and> user_data_file st' =
            Content ''{"accessToken":"access-sandbox-1","userStatus":"connected"}''\<close>
proof -
  let ?body = "Obj [(''public_token'', Str ''public-xyz'')]"
  let ?d = "Obj [(''access_token'', Str ''access-sandbox-1''), (''item_id'', Str ''item-1'')]"
  let ?r1 = "Obj [(''accessToken'', Str ''access-sandbox-1''), (''userStatus'', Str ''disconnected'')]"
  let ?r2 = "Obj [(''accessToken'', Str ''access-sandbox-1''), (''userStatus'', Str ''connected'')]"
  let ?t1 = \<open>''{"accessToken":"access-sandbox-1","userStatus":"disconnected"}''\<close>
  let ?t2 = \<open>''{"accessToken":"access-sandbox-1","userStatus":"connected"}''\<close>
  have h1: "get_prop ?body ''public_token'' = Inr (Str ''public-xyz'')"
    by simp
  have h2: "itemPublicTokenExchange sample_plaid (Obj [(''public_token'', Str ''public-xyz'')])
              = Inr (Obj [(''data'', ?d)])"
    by (simp add: sample_plaid_def)
  have h3: "get_prop (Obj [(''data'', ?d)]) ''data'' = Inr ?d"
    by simp
  have h4: "get_prop ?d ''access_token'' = Inr (Str ''access-sandbox-1'')"
    by simp
  have h5: "set_prop (userRecord fresh) FIELD_ACCESS_TOKEN (Str ''access-sandbox-1'') = Inr ?r1"
    by (simp add: sample_defs emit_def)
  have h6: "JSON_stringify sample_json ?r1 = Some ?t1"
    by (simp add: sample_json_def sample_docs_def)
  have h7: "set_prop ?r1 FIELD_USER_STATUS (Str ''connected'') = Inr ?r2"
    by (simp add: sample_defs)
  have h8: "JSON_stringify sample_json ?r2 = Some ?t2"
    by (simp add: sample_json_def sample_docs_def)
  from swap_public_token_success [OF h1 h2 h3 h4 h5 h6 h7 h8, of WriteOk WriteOk]
  show ?thesis by blast
qed

text \<open>
  C2 as stated lets the store contain the pair after every successful exchange. When the
  second write fails, the handler still answers \<^verbatim>\<open>{status: "success"}\<close>, the record in
  memory is connected, and the store holds the record of the first write, with the
  status \<^verbatim>\<open>"disconnected"\<close>.
\<close>

theorem swap_replies_success_without_store:
  \<open>fst (swap_public_token sample_plaid sample_json WriteOk
          (WriteFails (SystemError ''ENOSPC'')
             (Content ''{"accessToken":"access-sandbox-1","userStatus":"disconnected"}''))
          (Obj [(''public_token'', Str ''public-xyz'')]) fresh)
     = Inr (Reply 200 (Obj [(''status'', Str ''success'')]))
   \<and> userRecord (snd (swap_public_token sample_plaid sample_json WriteOk
          (WriteFails (SystemError ''ENOSPC'')
             (Content ''{"accessToken":"access-sandbox-1","userStatus":"disconnected"}''))
          (Obj [(''public_token'', Str ''public-xyz'')]) fresh))
     = Obj [(''accessToken'', Str ''access-sandbox-1''), (''userStatus'', Str ''connected'')]
   \<and> user_data_file (snd (swap_public_token sample_plaid sample_json WriteOk
          (WriteFails (SystemError ''ENOSPC'')
             (Content ''{"accessToken":"access-sandbox-1","userStatus":"disconnected"}''))
          (Obj [(''public_token'', Str ''public-xyz'')]) fresh))
     = Content ''{"accessToken":"access-sandbox-1","userStatus":"disconnected"}''\<close>
  by (simp add: swap_public_token_def updateUserRecord_def res_json_def emit_def sample_defs)

section \<open>A handler run alone is a run of the event loop\<close>

text \<open>
  The handlers of the first sections are the pieces of the event loop, run one after the
  other with nothing in between: a request arrives and each task it leaves is woken at
  once.
\<close>

lemma updateUserRecord_split:
  "updateUserRecord J w key val st =
     (case set_prop (userRecord st) key val of
        Inl e \<Rightarrow> Inl e
      | Inr r \<Rightarrow> Inr (write_completes (JSON_stringify J r) w (st\<lparr>userRecord := r\<rparr>)))"
  by (simp add: updateUserRecord_def write_completes_def Let_def
      split: sum.splits option.splits write_outcome.splits)

lemma write_completes_userRecord:
  "userRecord (write_completes x w st) = userRecord st"
  by (simp add: write_completes_def emit_def split: option.splits write_outcome.splits)

lemma respond_alt:
  "respond r = (Responds (fst (app_use_errorHandler r)), snd (app_use_errorHandler r))"
  by (simp add: respond_def split: prod.splits)

lemma alone_Responds: "alone P J w1 w2 (Responds rep, st) = (Responds rep, st)"
  by (simp add: alone_def)

lemma alone_Suspended:
  "alone P J w1 w2 (Suspended t, st) =
     (case resume J t (answer P w1 w2 t) st of None \<Rightarrow> (Suspended t, st) | Some c \<Rightarrow> c)"
  by (simp add: alone_def)

lemmas alone_simps = respond_alt alone_Responds alone_Suspended relay_def Let_def

lemma run_alone_get_user_info:
  "alone P J w1 w2 (arrive A GET_get_user_info st)
     = (Responds (fst (handle P J A GetUserInfo st)), snd (handle P J A GetUserInfo st))"
  by (simp add: alone_simps)

lemma run_alone_receive_webhook:
  "alone P J w1 w2 (arrive A (POST_receive_webhook body) st)
     = (Responds (fst (handle P J A (ReceiveWebhook body) st)),
        snd (handle P J A (ReceiveWebhook body) st))"
  by (simp add: alone_simps)

lemma run_alone_generate_link_token:
  "alone P J w1 w2 (arrive A POST_generate_link_token st)
     = (Responds (fst (handle P J A GenerateLinkToken st)),
        snd (handle P J A GenerateLinkToken st))"
  by (simp add: alone_simps generate_link_token_def emit_def split: sum.splits)

lemma run_alone_transactions:
  "alone P J w1 w2 (arrive A (GET_transactions startDate endDate) st)
     = (Responds (fst (handle P J A (Transactions startDate endDate) st)),
        snd (handle P J A (Transactions startDate endDate) st))"
  by (simp add: alone_simps transactions_def split: sum.splits)

lemma run_alone_balances:
  "alone P J w1 w2 (arrive A GET_balances st)
     = (Responds (fst (handle P J A Balances st)), snd (handle P J A Balances st))"
  by (simp add: alone_simps balances_def split: sum.splits)

lemma run_alone_create_asset_report:
  "alone P J w1 w2 (arrive A GET_create_asset_report st)
     = (Responds (fst (handle P J A CreateAssetReport st)),
        snd (handle P J A CreateAssetReport st))"
  by (simp add: alone_simps create_asset_report_def split: sum.splits)

lemma run_alone_fire_test_webhook:
  "alone P J w1 w2 (arrive A POST_fire_test_webhook st)
     = (Responds (fst (handle P J A FireTestWebhook st)),
        snd (handle P J A FireTestWebhook st))"
  by (simp add: alone_simps fire_test_webhook_def split: sum.splits)

lemma run_alone_update_webhook:
  "alone P J w1 w2 (arrive A (POST_update_webhook body) st)
     = (Responds (fst (handle P J A (UpdateWebhook body) st)),
        snd (handle P J A (UpdateWebhook body) st))"
  by (simp add: alone_simps update_webhook_def split: sum.splits)

lemma run_alone_swap_public_token:
  "alone P J w1 w2 (alone P J w1 w2 (alone P J w1 w2
      (arrive A (POST_swap_public_token body) st)))
     = (Responds (fst (handle P J A (SwapPublicToken body w1 w2) st)),
        snd (handle P J A (SwapPublicToken body w1 w2) st))"
  by (simp add: alone_simps swap_public_token_def updateUserRecord_split
      write_completes_userRecord split: sum.splits)

lemma handle_is_run_alone:
  "alone P J (first_write rq) (second_write rq)
     (alone P J (first_write rq) (second_write rq)
       (alone P J (first_write rq) (second_write rq) (arrive A (incoming_of rq) st)))
   = (Responds (fst (handle P J A rq st)), snd (handle P J A rq st))"
proof (cases rq)
  case GetUserInfo
  then show ?thesis
    by (simp only: incoming_of.simps run_alone_get_user_info alone_Responds)
next
  case GenerateLinkToken
  then show ?thesis
    by (simp only: incoming_of.simps run_alone_generate_link_token alone_Responds)
next
  case (SwapPublicToken body w1 w2)
  then show ?thesis
    by (simp only: incoming_of.simps first_write.simps second_write.simps
        run_alone_swap_public_token)
next
  case (Transactions startDate endDate)
  then show ?thesis
    by (simp only: incoming_of.simps run_alone_transactions alone_Responds)
next
  case Balances
  then show ?thesis
    by (simp only: incoming_of.simps run_alone_balances alone_Responds)
next
  case CreateAssetReport
  then show ?thesis
    by (simp only: incoming_of.simps run_alone_create_asset_report alone_Responds)
next
  case FireTestWebhook
  then show ?thesis
    by (simp only: incoming_of.simps run_alone_fire_test_webhook alone_Responds)
next
  case (UpdateWebhook body)
  then show ?thesis
    by (simp only: incoming_of.simps run_alone_update_webhook alone_Responds)
next
  case (ReceiveWebhook body)
  then show ?thesis
    by (simp only: incoming_of.simps run_alone_receive_webhook alone_Responds)
qed

section \<open>Changing the webhook URL\<close>

lemma errorHandler_frame:
  "\<exists>rep. errorHandler err s =
     (rep, s\<lparr>trace := trace s @
                [Console [Txt ''Your error:''], Console [Err err], Responded rep]\<rparr>)"
  by (simp add: errorHandler_def res_status_send_def emit_def Let_def split: jsval.splits)




section \<open>Webhooks\<close>

lemma logs_only_if:
  "logs_only f \<Longrightarrow> logs_only g \<Longrightarrow> logs_only (\<lambda>st. if c then f st else g st)"
  by (cases c) simp_all

lemma logs_only_throw: "logs_only (\<lambda>st. Inl TypeError)"
  by (simp add: logs_only_def)

lemma logs_only_get_prop:
  "(\<And>v. logs_only (g v)) \<Longrightarrow>
   logs_only (\<lambda>st. case get_prop x k of Inl e \<Rightarrow> Inl e | Inr v \<Rightarrow> g v st)"
  by (cases x) (simp_all add: logs_only_throw)

lemma logs_only_log: "logs_only (\<lambda>st. Inr (emit (Console [Txt l]) st))"
  unfolding logs_only_def by blast

lemma logs_only_template: "logs_only (console_log_template pre v post)"
  unfolding console_log_template_def [abs_def]
  by (cases "ToString v") (simp_all add: logs_only_throw logs_only_log)

lemma logs_only_handleItemWebhook: "logs_only (handleItemWebhook code body)"
  unfolding handleItemWebhook_def [abs_def]
  by (intro logs_only_if logs_only_get_prop logs_only_template logs_only_log)

lemma logs_only_handleTransactionsWebhook: "logs_only (handleTransactionsWebhook code body)"
  unfolding handleTransactionsWebhook_def [abs_def]
  by (intro logs_only_if logs_only_get_prop logs_only_template logs_only_log)

lemma logs_only_handleAssetsWebhook: "logs_only (handleAssetsWebhook code body)"
  unfolding handleAssetsWebhook_def [abs_def]
  by (intro logs_only_if logs_only_get_prop logs_only_template logs_only_log)

lemma logs_only_switch_product: "logs_only (switch_product product code body)"
  unfolding switch_product_def [abs_def]
  by (intro logs_only_if logs_only_handleItemWebhook logs_only_handleTransactionsWebhook
      logs_only_handleAssetsWebhook logs_only_template)

lemma get_prop_Inl: "get_prop v k = Inl e \<Longrightarrow> e = TypeError"
  by (cases v) auto

lemma errorHandler_TypeError:
  "errorHandler TypeError st =
     (Reply 500 (Obj [(''error_code'', Str ''OTHER_ERROR''),
                      (''error_message'', Str ''I got some other message on the server.'')]),
      st\<lparr>trace := trace st @
        [Console [Txt ''Your error:''], Console [Err TypeError],
         Responded (Reply 500 (Obj [(''error_code'', Str ''OTHER_ERROR''),
                      (''error_message'', Str ''I got some other message on the server.'')]))]\<rparr>)"
  by (simp add: errorHandler_def res_status_send_def response_data_def nullish_def emit_def
      Let_def)

lemma receive_webhook_cases:
  "(get_prop body ''webhook_type'' = Inl TypeError \<and>
      (\<forall>st. receive_webhook body st =
         (Inl TypeError, st\<lparr>trace := trace st @
            [Console [Txt ''this is the webhook response''], Console [Val body]]\<rparr>)))
   \<or> (\<exists>product code. get_prop body ''webhook_type'' = Inr product
         \<and> get_prop body ''webhook_code'' = Inr code
         \<and> (\<forall>st. switch_product product code body st = Inl TypeError)
         \<and> (\<forall>st. receive_webhook body st =
         (Inl TypeError, st\<lparr>trace := trace st @
            [Console [Txt ''this is the webhook response''], Console [Val body]]\<rparr>)))
   \<or> (\<exists>product code l. get_prop body ''webhook_type'' = Inr product
         \<and> get_prop body ''webhook_code'' = Inr code
         \<and> (\<forall>st. switch_product product code body st = Inr (emit (Console [Txt l]) st))
         \<and> (\<forall>st. receive_webhook body st =
         (Inr (Reply 200 (Obj [(''status'', Str ''received'')])),
          st\<lparr>trace := trace st @
            [Console [Txt ''this is the webhook response''], Console [Val body],
             Console [Txt l], Responded (Reply 200 (Obj [(''status'', Str ''received'')]))]\<rparr>)))"
proof (cases "get_prop body ''webhook_type''")
  case (Inl e)
  then have "e = TypeError" by (rule get_prop_Inl)
  with Inl show ?thesis
    by (simp add: receive_webhook_def emit_def Let_def)
next
  case (Inr product)
  then obtain code where c: "get_prop body ''webhook_code'' = Inr code"
    by (cases body) auto
  from logs_only_switch_product [of product code body]
  consider "\<forall>st. switch_product product code body st = Inl TypeError"
    | l where "\<forall>st. switch_product product code body st = Inr (emit (Console [Txt l]) st)"
    unfolding logs_only_def by blast
  then show ?thesis
  proof cases
    case 1
    with Inr c show ?thesis
      by (simp add: receive_webhook_def emit_def Let_def)
  next
    case 2
    with Inr c have "\<forall>st. receive_webhook body st =
         (Inr (Reply 200 (Obj [(''status'', Str ''received'')])),
          st\<lparr>trace := trace st @
            [Console [Txt ''this is the webhook response''], Console [Val body],
             Console [Txt l], Responded (Reply 200 (Obj [(''status'', Str ''received'')]))]\<rparr>)"
      by (simp add: receive_webhook_def res_json_def emit_def Let_def)
    with Inr c 2 show ?thesis by blast
  qed
qed

text \<open>
  C9. For every webhook body, the route \<^verbatim>\<open>receive_webhook\<close> (with the error responder
  behind it) changes nothing but the trace: the record in memory, the store, and
  \<^verbatim>\<open>webhookUrl\<close> stay as they are, the events it adds are console lines and the response,
  and neither the response nor the events depend on the state, so the record is not read.
\<close>

theorem receive_webhook_frame:
  "\<exists>rep evs. list_all silent evs
      \<and> (\<forall>P J A st. handle P J A (ReceiveWebhook body) st = (rep, st\<lparr>trace := trace st @ evs\<rparr>))"
proof -
  let ?pre = "[Console [Txt ''this is the webhook response''], Console [Val body]]"
  let ?ack = "Reply 200 (Obj [(''status'', Str ''received'')])"
  let ?err = "Reply 500 (Obj [(''error_code'', Str ''OTHER_ERROR''),
                      (''error_message'', Str ''I got some other message on the server.'')])"
  from receive_webhook_cases [of body]
  consider (throws) "\<forall>st. receive_webhook body st = (Inl TypeError, st\<lparr>trace := trace st @ ?pre\<rparr>)"
    | (logs) l where "\<forall>st. receive_webhook body st =
         (Inr ?ack, st\<lparr>trace := trace st @ ?pre @ [Console [Txt l], Responded ?ack]\<rparr>)"
    by auto
  then show ?thesis
  proof cases
    case throws
    have "list_all silent (?pre @ [Console [Txt ''Your error:''], Console [Err TypeError], Responded ?err])"
      by simp
    moreover have "\<forall>P J A st. handle P J A (ReceiveWebhook body) st =
        (?err, st\<lparr>trace := trace st @ (?pre @ [Console [Txt ''Your error:''], Console [Err TypeError], Responded ?err])\<rparr>)"
      using throws by (simp add: app_use_errorHandler_def errorHandler_TypeError)
    ultimately show ?thesis by blast
  next
    case logs
    have "list_all silent (?pre @ [Console [Txt l], Responded ?ack])"
      by simp
    moreover have "\<forall>P J A st. handle P J A (ReceiveWebhook body) st =
        (?ack, st\<lparr>trace := trace st @ (?pre @ [Console [Txt l], Responded ?ack])\<rparr>)"
      using logs by (simp add: app_use_errorHandler_def)
    ultimately show ?thesis by blast
  qed
qed

text \<open>
  C7. The webhook \<^verbatim>\<open>{webhook_type: "ITEM", webhook_code: "USER_PERMISSION_REVOKED"}\<close>,
  received by a process whose record is connected, prints its line and is acknowledged;
  the record keeps its access token and the status \<^verbatim>\<open>"connected"\<close>.
\<close>

theorem revoked_webhook_keeps_record:
  "app_use_errorHandler
     (receive_webhook (Obj [(''webhook_type'', Str ''ITEM''),
                            (''webhook_code'', Str ''USER_PERMISSION_REVOKED'')]) connected)
   = (Reply 200 (Obj [(''status'', Str ''received'')]),
      connected\<lparr>trace := trace connected @
        [Console [Txt ''this is the webhook response''],
         Console [Val (Obj [(''webhook_type'', Str ''ITEM''),
                            (''webhook_code'', Str ''USER_PERMISSION_REVOKED'')])],
         Console [Txt ''The user revoked access to this item. We should remove it from our records''],
         Responded (Reply 200 (Obj [(''status'', Str ''received'')]))]\<rparr>)
   \<and> userRecord connected =
       Obj [(''accessToken'', Str ''access-sandbox-1''), (''userStatus'', Str ''connected'')]"
  by (simp add: app_use_errorHandler_def receive_webhook_def switch_product_def handleItemWebhook_def
      WebhookType_Item_def res_json_def emit_def connected_def)

text \<open>
  C3 as stated acknowledges every parsed event. The event
  \<^verbatim>\<open>{webhook_type: "ITEM", webhook_code: "ERROR"}\<close> without an \<^verbatim>\<open>error\<close> object makes
  \<^verbatim>\<open>handleItemWebhook\<close> throw, and the sender receives the error responder's 500.
\<close>

theorem item_error_webhook_without_error_object:
  "fst (app_use_errorHandler
     (receive_webhook (Obj [(''webhook_type'', Str ''ITEM''), (''webhook_code'', Str ''ERROR'')])
        fresh))
   = Reply 500 (Obj [(''error_code'', Str ''OTHER_ERROR''),
                     (''error_message'', Str ''I got some other message on the server.'')])"
  by (simp add: app_use_errorHandler_def receive_webhook_def switch_product_def handleItemWebhook_def
      WebhookType_Item_def res_json_def emit_def errorHandler_def res_status_send_def
      response_data_def nullish_def Let_def)

section \<open>The invariant of the record\<close>

text \<open>
  C1 as stated lets every reachable state, after the start-up and after each completed
  update, satisfy the invariant. After the start-up without a store it holds. After the
  first update of a token swap the record has an access token and the status
  \<^verbatim>\<open>"disconnected"\<close>, and the store holds that record; a process that starts on that store
  has it as its record after the start-up. And a swap whose exchange resolves with the
  access token \<^verbatim>\<open>null\<close> answers \<^verbatim>\<open>{status: "success"}\<close> and leaves the status
  \<^verbatim>\<open>"connected"\<close> with the access token \<^verbatim>\<open>null\<close>.
\<close>

theorem update_breaks_record_invariant:
  \<open>record_invariant (userRecord fresh)
   \<and> \<not> isl (updateUserRecord sample_json WriteOk FIELD_ACCESS_TOKEN (Str ''access-sandbox-1'') fresh)
   \<and> \<not> record_invariant (userRecord (projr
          (updateUserRecord sample_json WriteOk FIELD_ACCESS_TOKEN (Str ''access-sandbox-1'') fresh)))
   \<and> user_data_file (projr
          (updateUserRecord sample_json WriteOk FIELD_ACCESS_TOKEN (Str ''access-sandbox-1'') fresh))
       = Content ''{"accessToken":"access-sandbox-1","userStatus":"disconnected"}''
   \<and> \<not> isl (startup sample_json
          (boot None (Content ''{"accessToken":"access-sandbox-1","userStatus":"disconnected"}'')))
   \<and> \<not> record_invariant (userRecord (projr (startup sample_json
          (boot None (Content ''{"accessToken":"access-sandbox-1","userStatus":"disconnected"}'')))))
   \<and> fst (swap_public_token null_token_plaid sample_json WriteOk WriteOk
            (Obj [(''public_token'', Str ''public-xyz'')]) fresh)
       = Inr (Reply 200 (Obj [(''status'', Str ''success'')]))
   \<and> \<not> record_invariant (userRecord (snd (swap_public_token null_token_plaid sample_json
            WriteOk WriteOk (Obj [(''public_token'', Str ''public-xyz'')]) fresh)))\<close>
  by (simp add: record_invariant_def updateUserRecord_def swap_public_token_def res_json_def
      startup_def getUserRecord_def getUserRecord_try_def null_token_plaid_def
      nullish_def emit_def sample_defs)

lemma errorHandler_userRecord: "userRecord (snd (errorHandler e st)) = userRecord st"
  using errorHandler_frame [of e st] by auto

lemma errorHandler_user_data_file:
  "user_data_file (snd (errorHandler e st)) = user_data_file st"
  using errorHandler_frame [of e st] by auto

lemma get_user_info_userRecord: "userRecord (snd (get_user_info st)) = userRecord st"
  by (simp add: get_user_info_def res_json_def emit_def split: sum.splits)

lemma receive_webhook_userRecord: "userRecord (snd (receive_webhook body st)) = userRecord st"
  using receive_webhook_cases [of body] by (elim disjE exE conjE) simp_all

lemma record_invariant_default: "record_invariant default_record"
  by (simp add: record_invariant_def default_record_def nullish_def
      FIELD_ACCESS_TOKEN_def FIELD_USER_STATUS_def)

lemma startup_invariant:
  assumes "startup J st = Inr s0"
    and "\<forall>s r. user_data_file st = Content s \<longrightarrow> JSON_parse J s = Some r \<longrightarrow> record_invariant r"
  shows "record_invariant (userRecord s0)"
  using assms record_invariant_default
  by (auto simp: startup_def getUserRecord_def getUserRecord_try_def emit_def
      split: sum.splits option.splits if_splits disk.splits elim!: fs_readFile.elims)

section \<open>Acknowledging webhooks\<close>

lemma switch_product_any_state:
  "isl (switch_product product code body st) = isl (switch_product product code body st')"
  using logs_only_switch_product [of product code body]
  unfolding logs_only_def by (elim disjE exE) simp_all

lemma switch_product_TypeError:
  "switch_product product code body st = Inl e \<Longrightarrow> e = TypeError"
  using logs_only_switch_product [of product code body]
  unfolding logs_only_def by (elim disjE exE) simp_all

lemma receive_webhook_parsed:
  assumes "get_prop body ''webhook_type'' = Inr product"
    and "get_prop body ''webhook_code'' = Inr code"
  shows "receive_webhook body st =
     (case switch_product product code body
             (st\<lparr>trace := trace st @
                [Console [Txt ''this is the webhook response''], Console [Val body]]\<rparr>) of
        Inl e \<Rightarrow> (Inl e, st\<lparr>trace := trace st @
                [Console [Txt ''this is the webhook response''], Console [Val body]]\<rparr>)
      | Inr st3 \<Rightarrow>
          (Inr (Reply 200 (Obj [(''status'', Str ''received'')])),
           st3\<lparr>trace := trace st3 @
                [Responded (Reply 200 (Obj [(''status'', Str ''received'')]))]\<rparr>))"
  using assms by (simp add: receive_webhook_def res_json_def emit_def Let_def split: sum.splits)

lemma switch_product_unrecognised_product:
  assumes "product \<noteq> WebhookType_Item" and "product \<noteq> WebhookType_Transactions"
    and "product \<noteq> WebhookType_Assets" and "ToString product = Some s"
  shows "switch_product product code body st =
           Inr (st\<lparr>trace := trace st @ [Console [Txt (''Can't handle webhook product '' @ s)]]\<rparr>)"
  using assms by (simp add: switch_product_def console_log_template_def emit_def)

lemma switch_product_unrecognised_code:
  assumes "product = WebhookType_Item \<and>
             code \<notin> Str ` {''ERROR'', ''NEW_ACCOUNTS_AVAILABLE'', ''PENDING_EXPIRATION'',
                           ''USER_PERMISSION_REVOKED'', ''WEBHOOK_UPDATE_ACKNOWLEDGED''}
           \<or> product = WebhookType_Transactions \<and>
             code \<notin> Str ` {''INITIAL_UPDATE'', ''HISTORICAL_UPDATE'', ''DEFAULT_UPDATE'',
                           ''TRANSACTIONS_REMOVED'', ''SYNC_UPDATES_AVAILABLE''}
           \<or> product = WebhookType_Assets \<and> code \<notin> Str ` {''PRODUCT_READY'', ''ERROR''}"
    and "ToString code = Some s"
  shows "switch_product product code body st =
           Inr (st\<lparr>trace := trace st @ [Console [Txt (''Can't handle webhook code '' @ s)]]\<rparr>)"
  using assms
  by (elim disjE conjE)
    (simp_all add: switch_product_def handleItemWebhook_def handleTransactionsWebhook_def
      handleAssetsWebhook_def console_log_template_def emit_def
      WebhookType_Item_def WebhookType_Transactions_def WebhookType_Assets_def)

text \<open>
  C3, as the code has it. For a webhook body from which \<^verbatim>\<open>webhook_type\<close> and
  \<^verbatim>\<open>webhook_code\<close> can be read, the sender receives \<^verbatim>\<open>{status: "received"}\<close> exactly
  when the product handler returns without an exception; when it throws, the error goes to
  the error responder and the sender receives its 500. An unrecognized product type, and
  an unrecognized code of a recognized product, whose value converts to a string, only
  prints one line and is acknowledged.
\<close>

theorem receive_webhook_acknowledges:
  assumes "get_prop body ''webhook_type'' = Inr product"
    and "get_prop body ''webhook_code'' = Inr code"
  shows "((fst (handle P J A (ReceiveWebhook body) st)
            = Reply 200 (Obj [(''status'', Str ''received'')]))
          = (\<not> isl (switch_product product code body st)))
     \<and> (isl (switch_product product code body st) \<longrightarrow>
          fst (handle P J A (ReceiveWebhook body) st)
            = Reply 500 (Obj [(''error_code'', Str ''OTHER_ERROR''),
                (''error_message'', Str ''I got some other message on the server.'')]))
     \<and> (product \<noteq> WebhookType_Item \<and> product \<noteq> WebhookType_Transactions
          \<and> product \<noteq> WebhookType_Assets \<and> ToString product = Some s \<longrightarrow>
          handle P J A (ReceiveWebhook body) st =
            (Reply 200 (Obj [(''status'', Str ''received'')]),
             st\<lparr>trace := trace st @
               [Console [Txt ''this is the webhook response''], Console [Val body],
                Console [Txt (''Can't handle webhook product '' @ s)],
                Responded (Reply 200 (Obj [(''status'', Str ''received'')]))]\<rparr>))
     \<and> ((product = WebhookType_Item \<and>
             code \<notin> Str ` {''ERROR'', ''NEW_ACCOUNTS_AVAILABLE'', ''PENDING_EXPIRATION'',
                           ''USER_PERMISSION_REVOKED'', ''WEBHOOK_UPDATE_ACKNOWLEDGED''}
           \<or> product = WebhookType_Transactions \<and>
             code \<notin> Str ` {''INITIAL_UPDATE'', ''HISTORICAL_UPDATE'', ''DEFAULT_UPDATE'',
                           ''TRANSACTIONS_REMOVED'', ''SYNC_UPDATES_AVAILABLE''}
           \<or> product = WebhookType_Assets \<and> code \<notin> Str ` {''PRODUCT_READY'', ''ERROR''})
          \<and> ToString code = Some s' \<longrightarrow>
          handle P J A (ReceiveWebhook body) st =
            (Reply 200 (Obj [(''status'', Str ''received'')]),
             st\<lparr>trace := trace st @
               [Console [Txt ''this is the webhook response''], Console [Val body],
                Console [Txt (''Can't handle webhook code '' @ s')],
                Responded (Reply 200 (Obj [(''status'', Str ''received'')]))]\<rparr>))"
proof -
  let ?st2 = "st\<lparr>trace := trace st @
                [Console [Txt ''this is the webhook response''], Console [Val body]]\<rparr>"
  note rw = receive_webhook_parsed [OF assms, of st]
  have iso: "isl (switch_product product code body st) = isl (switch_product product code body ?st2)"
    by (rule switch_product_any_state)
  have a: "(fst (handle P J A (ReceiveWebhook body) st)
            = Reply 200 (Obj [(''status'', Str ''received'')]))
          = (\<not> isl (switch_product product code body st))"
  proof (cases "switch_product product code body ?st2")
    case (Inl e)
    then have "e = TypeError" by (rule switch_product_TypeError)
    with Inl rw iso show ?thesis
      by (simp add: app_use_errorHandler_def errorHandler_TypeError)
  next
    case (Inr st3)
    with rw iso show ?thesis
      by (simp add: app_use_errorHandler_def)
  qed
  have b: "isl (switch_product product code body st) \<longrightarrow>
          fst (handle P J A (ReceiveWebhook body) st)
            = Reply 500 (Obj [(''error_code'', Str ''OTHER_ERROR''),
                (''error_message'', Str ''I got some other message on the server.'')])"
  proof (cases "switch_product product code body ?st2")
    case (Inl e)
    then have "e = TypeError" by (rule switch_product_TypeError)
    with Inl rw show ?thesis
      by (simp add: app_use_errorHandler_def errorHandler_TypeError)
  next
    case (Inr st3)
    with iso show ?thesis by simp
  qed
  have c: "product \<noteq> WebhookType_Item \<and> product \<noteq> WebhookType_Transactions
          \<and> product \<noteq> WebhookType_Assets \<and> ToString product = Some s \<longrightarrow>
          handle P J A (ReceiveWebhook body) st =
            (Reply 200 (Obj [(''status'', Str ''received'')]),
             st\<lparr>trace := trace st @
               [Console [Txt ''this is the webhook response''], Console [Val body],
                Console [Txt (''Can't handle webhook product '' @ s)],
                Responded (Reply 200 (Obj [(''status'', Str ''received'')]))]\<rparr>)"
    using rw by (auto simp: switch_product_unrecognised_product app_use_errorHandler_def)
  have d: "(product = WebhookType_Item \<and>
             code \<notin> Str ` {''ERROR'', ''NEW_ACCOUNTS_AVAILABLE'', ''PENDING_EXPIRATION'',
                           ''USER_PERMISSION_REVOKED'', ''WEBHOOK_UPDATE_ACKNOWLEDGED''}
           \<or> product = WebhookType_Transactions \<and>
             code \<notin> Str ` {''INITIAL_UPDATE'', ''HISTORICAL_UPDATE'', ''DEFAULT_UPDATE'',
                           ''TRANSACTIONS_REMOVED'', ''SYNC_UPDATES_AVAILABLE''}
           \<or> product = WebhookType_Assets \<and> code \<notin> Str ` {''PRODUCT_READY'', ''ERROR''})
          \<and> ToString code = Some s' \<longrightarrow>
          handle P J A (ReceiveWebhook body) st =
            (Reply 200 (Obj [(''status'', Str ''received'')]),
             st\<lparr>trace := trace st @
               [Console [Txt ''this is the webhook response''], Console [Val body],
                Console [Txt (''Can't handle webhook code '' @ s')],
                Responded (Reply 200 (Obj [(''status'', Str ''received'')]))]\<rparr>)"
  proof (intro impI, elim conjE)
    assume u: "product = WebhookType_Item \<and>
             code \<notin> Str ` {''ERROR'', ''NEW_ACCOUNTS_AVAILABLE'', ''PENDING_EXPIRATION'',
                           ''USER_PERMISSION_REVOKED'', ''WEBHOOK_UPDATE_ACKNOWLEDGED''}
           \<or> product = WebhookType_Transactions \<and>
             code \<notin> Str ` {''INITIAL_UPDATE'', ''HISTORICAL_UPDATE'', ''DEFAULT_UPDATE'',
                           ''TRANSACTIONS_REMOVED'', ''SYNC_UPDATES_AVAILABLE''}
           \<or> product = WebhookType_Assets \<and> code \<notin> Str ` {''PRODUCT_READY'', ''ERROR''}"
      and t: "ToString code = Some s'"
    from rw switch_product_unrecognised_code [OF u t, of body ?st2]
    show "handle P J A (ReceiveWebhook body) st =
            (Reply 200 (Obj [(''status'', Str ''received'')]),
             st\<lparr>trace := trace st @
               [Console [Txt ''this is the webhook response''], Console [Val body],
                Console [Txt (''Can't handle webhook code '' @ s')],
                Responded (Reply 200 (Obj [(''status'', Str ''received'')]))]\<rparr>)"
      by (simp add: app_use_errorHandler_def)
  qed
  from a b c d show ?thesis by (intro conjI)
qed

theorem receive_webhook_acknowledges_witness:
  "fst (handle sample_plaid sample_json (Str ''AUTH_DATA_UPDATE'')
          (ReceiveWebhook (Obj [(''webhook_type'', Str ''FOO'')])) fresh)
     = Reply 200 (Obj [(''status'', Str ''received'')])
   \<and> fst (handle sample_plaid sample_json (Str ''AUTH_DATA_UPDATE'')
          (ReceiveWebhook (Obj [(''webhook_type'', Str ''TRANSACTIONS''),
                                (''webhook_code'', Str ''DEFAULT_UPDATE''),
                                (''new_transactions'', Num ''5'')])) fresh)
     = Reply 200 (Obj [(''status'', Str ''received'')])
   \<and> fst (handle sample_plaid sample_json (Str ''AUTH_DATA_UPDATE'')
          (ReceiveWebhook (Obj [(''webhook_type'', Str ''ITEM''),
                                (''webhook_code'', Str ''LOGIN_REPAIRED'')])) fresh)
     = Reply 200 (Obj [(''status'', Str ''received'')])
   \<and> fst (handle sample_plaid sample_json (Str ''AUTH_DATA_UPDATE'')
          (ReceiveWebhook (Obj [(''webhook_type'', Str ''ASSETS''),
                                (''webhook_code'', Str ''ERROR'')])) fresh)
     = Reply 500 (Obj [(''error_code'', Str ''OTHER_ERROR''),
                       (''error_message'', Str ''I got some other message on the server.'')])"
proof -
  let ?P = sample_plaid and ?J = sample_json and ?A = "Str ''AUTH_DATA_UPDATE''"
  let ?foo = "Obj [(''webhook_type'', Str ''FOO'')]"
  let ?upd = "Obj [(''webhook_type'', Str ''TRANSACTIONS''),
                   (''webhook_code'', Str ''DEFAULT_UPDATE''), (''new_transactions'', Num ''5'')]"
  let ?rep = "Obj [(''webhook_type'', Str ''ITEM''), (''webhook_code'', Str ''LOGIN_REPAIRED'')]"
  let ?err = "Obj [(''webhook_type'', Str ''ASSETS''), (''webhook_code'', Str ''ERROR'')]"
  have f1: "get_prop ?foo ''webhook_type'' = Inr (Str ''FOO'')"
    and f2: "get_prop ?foo ''webhook_code'' = Inr Undefined"
    by simp_all
  have u1: "get_prop ?upd ''webhook_type'' = Inr (Str ''TRANSACTIONS'')"
    and u2: "get_prop ?upd ''webhook_code'' = Inr (Str ''DEFAULT_UPDATE'')"
    by simp_all
  have r1: "get_prop ?rep ''webhook_type'' = Inr (Str ''ITEM'')"
    and r2: "get_prop ?rep ''webhook_code'' = Inr (Str ''LOGIN_REPAIRED'')"
    by simp_all
  have e1: "get_prop ?err ''webhook_type'' = Inr (Str ''ASSETS'')"
    and e2: "get_prop ?err ''webhook_code'' = Inr (Str ''ERROR'')"
    by simp_all
  have a: "fst (handle ?P ?J ?A (ReceiveWebhook ?foo) fresh)
             = Reply 200 (Obj [(''status'', Str ''received'')])"
    using receive_webhook_acknowledges [OF f1 f2, of ?P ?J ?A fresh "''FOO''"]
    by (simp add: WebhookType_Item_def WebhookType_Transactions_def WebhookType_Assets_def)
  have "\<not> isl (switch_product (Str ''TRANSACTIONS'') (Str ''DEFAULT_UPDATE'') ?upd fresh)"
    by (simp add: switch_product_def handleTransactionsWebhook_def console_log_template_def
        WebhookType_Item_def WebhookType_Transactions_def)
  then have b: "fst (handle ?P ?J ?A (ReceiveWebhook ?upd) fresh)
             = Reply 200 (Obj [(''status'', Str ''received'')])"
    using receive_webhook_acknowledges [OF u1 u2, of ?P ?J ?A fresh]
    by blast
  have c: "fst (handle ?P ?J ?A (ReceiveWebhook ?rep) fresh)
             = Reply 200 (Obj [(''status'', Str ''received'')])"
    using receive_webhook_acknowledges [OF r1 r2, of ?P ?J ?A fresh _ "''LOGIN_REPAIRED''"]
    by (simp add: WebhookType_Item_def)
  have "isl (switch_product (Str ''ASSETS'') (Str ''ERROR'') ?err fresh)"
    by (simp add: switch_product_def handleAssetsWebhook_def
        WebhookType_Item_def WebhookType_Transactions_def WebhookType_Assets_def)
  then have d: "fst (handle ?P ?J ?A (ReceiveWebhook ?err) fresh)
             = Reply 500 (Obj [(''error_code'', Str ''OTHER_ERROR''),
                       (''error_message'', Str ''I got some other message on the server.'')])"
    using receive_webhook_acknowledges [OF e1 e2, of ?P ?J ?A fresh]
    by blast
  from a b c d show ?thesis by (intro conjI)
qed

section \<open>The invariant along every run of the event loop\<close>

lemma respond_frame:
  "respond (r, st) = (p, st') \<Longrightarrow>
     userRecord st' = userRecord st \<and> user_data_file st' = user_data_file st
     \<and> (\<exists>rep. p = Responds rep)"
  by (cases r)
    (auto simp: respond_alt app_use_errorHandler_def errorHandler_userRecord
      errorHandler_user_data_file)

lemma res_json_frame:
  "res_json d st = (r, st') \<Longrightarrow>
     userRecord st' = userRecord st \<and> user_data_file st' = user_data_file st"
  by (auto simp: res_json_def emit_def)

lemma receive_webhook_user_data_file:
  "user_data_file (snd (receive_webhook body st)) = user_data_file st"
  using receive_webhook_cases [of body] by (elim disjE exE conjE) simp_all

lemma get_user_info_user_data_file:
  "user_data_file (snd (get_user_info st)) = user_data_file st"
  by (simp add: get_user_info_def res_json_def emit_def split: sum.splits)

lemma arrive_frame:
  assumes "arrive A rq st = (p, st')"
  shows "userRecord st' = userRecord st \<and> user_data_file st' = user_data_file st
     \<and> ((\<exists>rep. p = Responds rep) \<or> (\<exists>op request. p = Suspended (AwaitRemote op request)))"
proof (cases rq)
  case GET_get_user_info
  with assms respond_frame [of "fst (get_user_info st)" "snd (get_user_info st)" p st']
  show ?thesis
    by (simp add: get_user_info_userRecord get_user_info_user_data_file)
next
  case (POST_receive_webhook body)
  with assms respond_frame [of "fst (receive_webhook body st)" "snd (receive_webhook body st)" p st']
  show ?thesis
    by (simp add: receive_webhook_userRecord receive_webhook_user_data_file)
next
  case POST_generate_link_token
  with assms show ?thesis by (auto simp: emit_def)
next
  case (POST_swap_public_token body)
  with assms show ?thesis
    by (auto simp: emit_def split: sum.splits dest: respond_frame)
next
  case (GET_transactions startDate endDate)
  with assms show ?thesis
    by (auto simp: emit_def Let_def split: sum.splits dest: respond_frame)
next
  case GET_balances
  with assms show ?thesis
    by (auto simp: emit_def Let_def split: sum.splits dest: respond_frame)
next
  case GET_create_asset_report
  with assms show ?thesis
    by (auto simp: emit_def Let_def split: sum.splits dest: respond_frame)
next
  case POST_fire_test_webhook
  with assms show ?thesis
    by (auto simp: emit_def Let_def split: sum.splits dest: respond_frame)
next
  case (POST_update_webhook body)
  with assms show ?thesis
    by (auto simp: emit_def Let_def split: sum.splits dest: respond_frame)
qed

lemma relay_frame:
  "relay r st = (p, st') \<Longrightarrow>
     userRecord st' = userRecord st \<and> user_data_file st' = user_data_file st
     \<and> (\<exists>rep. p = Responds rep)"
  by (auto simp: relay_def split: sum.splits
      dest!: respond_frame dest: res_json_frame
      simp: res_json_def emit_def)

lemma has_token_set_token:
  "set_prop r FIELD_ACCESS_TOKEN tok = Inr r' \<Longrightarrow> \<not> nullish tok \<Longrightarrow> has_token r'"
  using get_prop_set_prop_same [of r FIELD_ACCESS_TOKEN tok r'] by (simp add: has_token_def)

lemma has_token_set_status:
  "has_token r \<Longrightarrow> set_prop r FIELD_USER_STATUS v = Inr r' \<Longrightarrow> has_token r'"
  using get_prop_set_prop_other [of r FIELD_USER_STATUS v r' FIELD_ACCESS_TOKEN]
  by (simp add: has_token_def FIELD_ACCESS_TOKEN_def FIELD_USER_STATUS_def)

lemma has_token_object: "has_token r \<Longrightarrow> \<exists>r'. set_prop r k v = Inr r'"
  by (cases r) (auto simp: has_token_def nullish_def)

lemma record_invariant_connected:
  "has_token r \<Longrightarrow> set_prop r FIELD_USER_STATUS (Str ''connected'') = Inr r'
     \<Longrightarrow> record_invariant r'"
  using has_token_set_status [of r "Str ''connected''" r']
    get_prop_set_prop_same [of r FIELD_USER_STATUS "Str ''connected''" r']
  by (simp add: record_invariant_def has_token_def)

lemma resume_read:
  "resume J AwaitReadFile w st = Some (p, st') \<Longrightarrow> startup J st = Inr st' \<and> p = Ends"
  by (cases w) (auto split: sum.splits)

lemma resume_relay:
  assumes "resume J (AwaitRemote op request) w st = Some (p, st')"
    and "op \<noteq> ItemPublicTokenExchange"
  shows "userRecord st' = userRecord st \<and> user_data_file st' = user_data_file st
     \<and> (\<exists>rep. p = Responds rep)"
proof (cases w)
  case (RemoteDone r)
  show ?thesis
  proof (cases op)
    case LinkTokenCreate
    with assms RemoteDone show ?thesis
      by (auto simp: Let_def res_json_def emit_def split: sum.splits dest!: respond_frame)
  next
    case ItemPublicTokenExchange
    with assms show ?thesis by simp
  qed (use assms RemoteDone in \<open>auto dest: relay_frame\<close>)
qed (use assms in \<open>cases op; simp\<close>)+

lemma resume_exchange:
  assumes "resume J (AwaitRemote ItemPublicTokenExchange request) w st = Some (p, st')"
    and "token_answers (AwaitRemote ItemPublicTokenExchange request) w"
  shows "user_data_file st' = user_data_file st
     \<and> ((userRecord st' = userRecord st \<and> (\<exists>rep. p = Responds rep))
        \<or> (\<exists>x tok. p = Suspended (AwaitWriteAccessToken x)
              \<and> set_prop (userRecord st) FIELD_ACCESS_TOKEN tok = Inr (userRecord st')
              \<and> \<not> nullish tok))"
proof (cases w)
  case (RemoteDone r)
  show ?thesis
  proof (cases r)
    case (Inl e)
    with assms RemoteDone show ?thesis by (auto dest!: respond_frame)
  next
    case (Inr response)
    show ?thesis
    proof (cases "get_prop response ''data''")
      case (Inl e)
      with assms RemoteDone Inr show ?thesis by (auto dest!: respond_frame)
    next
      case d: (Inr d)
      show ?thesis
      proof (cases "get_prop d ''access_token''")
        case (Inl e)
        with assms RemoteDone Inr d show ?thesis
          by (auto simp: Let_def emit_def dest!: respond_frame)
      next
        case tok: (Inr tok)
        from assms(2) RemoteDone Inr d tok have nn: "\<not> nullish tok"
          unfolding token_answers_def by blast
        show ?thesis
        proof (cases "set_prop (userRecord st) FIELD_ACCESS_TOKEN tok")
          case (Inl e)
          with assms RemoteDone Inr d tok show ?thesis
            by (auto simp: Let_def emit_def dest!: respond_frame)
        next
          case r': (Inr r')
          with assms RemoteDone Inr d tok nn show ?thesis
            by (auto simp: Let_def emit_def)
        qed
      qed
    qed
  qed
qed (use assms in simp_all)

lemma resume_write_token:
  assumes "resume J (AwaitWriteAccessToken x) w st = Some (p, st')"
  shows "(userRecord st' = userRecord st \<and> (\<exists>rep. p = Responds rep)
            \<and> (\<exists>e. set_prop (userRecord st) FIELD_USER_STATUS (Str ''connected'') = Inl e))
     \<or> (\<exists>y. p = Suspended (AwaitWriteUserStatus y)
           \<and> set_prop (userRecord st) FIELD_USER_STATUS (Str ''connected'')
               = Inr (userRecord st'))"
proof (cases w)
  case (WriteDone wo)
  show ?thesis
  proof (cases "set_prop (userRecord st) FIELD_USER_STATUS (Str ''connected'')")
    case (Inl e)
    with assms WriteDone show ?thesis
      by (auto simp: Let_def write_completes_userRecord dest!: respond_frame)
  next
    case (Inr r')
    with assms WriteDone show ?thesis
      by (auto simp: Let_def write_completes_userRecord)
  qed
qed (use assms in simp_all)

lemma resume_write_status:
  assumes "resume J (AwaitWriteUserStatus x) w st = Some (p, st')"
  shows "userRecord st' = userRecord st \<and> (\<exists>rep. p = Responds rep)"
proof (cases w)
  case (WriteDone wo)
  with assms show ?thesis
    by (auto simp: res_json_def emit_def write_completes_userRecord dest!: respond_frame)
qed (use assms in simp_all)

lemma settled_arrive:
  assumes "settled d st ts" and "arrive A rq st = (p, st')"
  shows "settled d st' (ts + pending p)"
proof -
  from arrive_frame [OF assms(2)] have
    f: "userRecord st' = userRecord st" "user_data_file st' = user_data_file st"
    and p: "(\<exists>rep. p = Responds rep) \<or> (\<exists>op request. p = Suspended (AwaitRemote op request))"
    by simp_all
  from p have q: "pending p = {#} \<or> (\<exists>op request. pending p = {#AwaitRemote op request#})"
    by (auto simp: pending_def)
  with assms(1) f show ?thesis
    by (auto simp: settled_def)
qed

lemma settled_woken:
  assumes s: "settled d st ts" and t: "t \<in># ts" and ok: "token_answers t w"
    and r: "resume J t w st = Some (p, st')"
    and store: "\<forall>s r. d = Content s \<longrightarrow> JSON_parse J s = Some r \<longrightarrow> record_invariant r"
  shows "settled d st' (ts - {#t#} + pending p)"
proof (cases t)
  case AwaitReadFile
  from resume_read [OF r [unfolded AwaitReadFile]] have
    su: "startup J st = Inr st'" and p: "p = Ends" by simp_all
  from t AwaitReadFile s have
    c: "count ts AwaitReadFile = 1" and u: "userRecord st = Undefined"
    and f: "user_data_file st = d" and n: "\<forall>x. AwaitWriteAccessToken x \<notin># ts"
    by (auto simp: settled_def)
  from su store f have inv: "record_invariant (userRecord st')"
    by (intro startup_invariant [of J st]) simp_all
  from c have "AwaitReadFile \<notin># ts - {#AwaitReadFile#}"
    by (simp add: not_in_iff)
  moreover from n have "\<forall>x. AwaitWriteAccessToken x \<notin># ts - {#AwaitReadFile#}"
    by (auto dest: in_diffD)
  ultimately show ?thesis
    using inv p AwaitReadFile by (simp add: settled_def pending_def)
next
  case (AwaitRemote op request)
  show ?thesis
  proof (cases "op = ItemPublicTokenExchange")
    case False
    from resume_relay [OF r [unfolded AwaitRemote] False] have
      f: "userRecord st' = userRecord st" "user_data_file st' = user_data_file st"
      and p: "pending p = {#}"
      by (auto simp: pending_def)
    have m: "\<And>x. x \<noteq> t \<Longrightarrow> (x \<in># ts - {#t#}) = (x \<in># ts)"
      by (simp add: in_diff_count count_greater_zero_iff [symmetric] del: count_greater_zero_iff)
    have c: "count (ts - {#t#}) AwaitReadFile = count ts AwaitReadFile"
      using AwaitRemote by simp
    from s f p m c AwaitRemote show ?thesis
      by (simp add: settled_def not_in_iff)
  next
    case True
    from resume_exchange [OF r [unfolded AwaitRemote True] ok [unfolded AwaitRemote True]]
    have f: "user_data_file st' = user_data_file st"
      and alt: "(userRecord st' = userRecord st \<and> (\<exists>rep. p = Responds rep))
        \<or> (\<exists>x tok. p = Suspended (AwaitWriteAccessToken x)
              \<and> set_prop (userRecord st) FIELD_ACCESS_TOKEN tok = Inr (userRecord st')
              \<and> \<not> nullish tok)"
      by simp_all
    have m: "\<And>x. x \<noteq> t \<Longrightarrow> (x \<in># ts - {#t#}) = (x \<in># ts)"
      by (simp add: in_diff_count count_greater_zero_iff [symmetric] del: count_greater_zero_iff)
    have c: "count (ts - {#t#}) AwaitReadFile = count ts AwaitReadFile"
      using AwaitRemote by simp
    from alt show ?thesis
    proof
      assume "userRecord st' = userRecord st \<and> (\<exists>rep. p = Responds rep)"
      then have "userRecord st' = userRecord st" and "pending p = {#}"
        by (auto simp: pending_def)
      with s f m c AwaitRemote show ?thesis
        by (simp add: settled_def not_in_iff)
    next
      assume "\<exists>x tok. p = Suspended (AwaitWriteAccessToken x)
              \<and> set_prop (userRecord st) FIELD_ACCESS_TOKEN tok = Inr (userRecord st')
              \<and> \<not> nullish tok"
      then obtain x tok where p: "pending p = {#AwaitWriteAccessToken x#}"
        and sp: "set_prop (userRecord st) FIELD_ACCESS_TOKEN tok = Inr (userRecord st')"
        and nn: "\<not> nullish tok"
        by (auto simp: pending_def)
      from sp have "userRecord st \<noteq> Undefined" by (cases "userRecord st") auto
      with s have a: "AwaitReadFile \<notin># ts" by (auto simp: settled_def)
      then have "AwaitReadFile \<notin># ts - {#t#}" by (auto dest: in_diffD)
      moreover from has_token_set_token [OF sp nn] have "has_token (userRecord st')" .
      ultimately show ?thesis
        using p by (auto simp: settled_def)
    qed
  qed
next
  case (AwaitWriteAccessToken x)
  with s t have a: "AwaitReadFile \<notin># ts" and h: "has_token (userRecord st)"
    by (auto simp: settled_def)
  from has_token_object [OF h, of FIELD_USER_STATUS "Str ''connected''"]
    resume_write_token [OF r [unfolded AwaitWriteAccessToken]]
  obtain y where p: "pending p = {#AwaitWriteUserStatus y#}"
    and sp: "set_prop (userRecord st) FIELD_USER_STATUS (Str ''connected'')
               = Inr (userRecord st')"
    by (auto simp: pending_def)
  from a have "AwaitReadFile \<notin># ts - {#t#}" by (auto dest: in_diffD)
  moreover from has_token_set_status [OF h sp] have "has_token (userRecord st')" .
  moreover from record_invariant_connected [OF h sp] have "record_invariant (userRecord st')" .
  ultimately show ?thesis
    using p by (auto simp: settled_def)
next
  case (AwaitWriteUserStatus x)
  with s t have a: "AwaitReadFile \<notin># ts"
    and b: "(\<exists>x. AwaitWriteAccessToken x \<in># ts) \<longrightarrow> has_token (userRecord st)"
    and c: "(\<forall>x. AwaitWriteAccessToken x \<notin># ts) \<longrightarrow> record_invariant (userRecord st)"
    by (auto simp: settled_def)
  from resume_write_status [OF r [unfolded AwaitWriteUserStatus]] have
    f: "userRecord st' = userRecord st" and p: "pending p = {#}"
    by (auto simp: pending_def)
  have m: "\<And>x. x \<noteq> t \<Longrightarrow> (x \<in># ts - {#t#}) = (x \<in># ts)"
    by (simp add: in_diff_count count_greater_zero_iff [symmetric] del: count_greater_zero_iff)
  from a have "AwaitReadFile \<notin># ts - {#t#}" by (auto dest: in_diffD)
  with b c f p m AwaitWriteUserStatus show ?thesis
    by (simp add: settled_def)
qed

lemma settled_boot: "settled d (boot env d) {#AwaitReadFile#}"
  by (simp add: settled_def boot_def)

lemma settled_reachable:
  assumes "\<forall>s r. d = Content s \<longrightarrow> JSON_parse J s = Some r \<longrightarrow> record_invariant r"
    and "reachable token_answers J A (boot env d) {#AwaitReadFile#} st ts"
  shows "settled d st ts"
  using assms(2)
proof (induction rule: reachable.induct)
  case at_start
  show ?case by (rule settled_boot)
next
  case (request st ts rq p st')
  then show ?case by (intro settled_arrive)
next
  case (woken st ts t w p st')
  with assms(1) show ?case by (intro settled_woken)
qed

text \<open>
  C1, as the code has it. Let the process start on a store that is missing, unreadable or
  unparsable, or whose record satisfies the invariant; let requests arrive and suspended
  handlers be woken in any order, so that handlers interleave at their \<^verbatim>\<open>await\<close>s; and
  let the remote service never resolve an exchange with an \<^verbatim>\<open>access_token\<close> that is
  \<^verbatim>\<open>null\<close> or \<^verbatim>\<open>undefined\<close>. Then in every state that is reached in which the start-up
  has completed and no token swap is between its two updates (suspended in the write of
  its access token), the status is \<^verbatim>\<open>"connected"\<close> exactly when the access token is not
  \<^verbatim>\<open>null\<close>.
\<close>

theorem record_invariant_reachable:
  assumes "\<forall>s r. d = Content s \<longrightarrow> JSON_parse J s = Some r \<longrightarrow> record_invariant r"
    and "reachable token_answers J A (boot env d) {#AwaitReadFile#} st ts"
    and "AwaitReadFile \<notin># ts"
    and "\<forall>x. AwaitWriteAccessToken x \<notin># ts"
  shows "record_invariant (userRecord st)"
  using settled_reachable [OF assms(1,2)] assms(3,4)
  by (auto simp: settled_def not_in_iff)

text \<open>
  A run of the event loop: the start-up finds no store, a token swap arrives and is
  suspended in the write of its access token, and \<^verbatim>\<open>get_user_info\<close> arrives and answers
  \<^verbatim>\<open>disconnected\<close> while the record has the access token.
\<close>

lemma swap_observed_between_updates:
  \<open>\<exists>st. reachable token_answers sample_json (Str ''AUTH_DATA_UPDATE'')
           (boot None Missing) {#AwaitReadFile#} st
           {#AwaitWriteAccessToken
               (Some ''{"accessToken":"access-sandbox-1","userStatus":"disconnected"}'')#}
        \<and> userRecord st =
            Obj [(''accessToken'', Str ''access-sandbox-1''), (''userStatus'', Str ''disconnected'')]
        \<and> user_data_file st = Missing
        \<and> last (trace st) =
            Responded (Reply 200 (Obj [(''user_status'', Str ''disconnected'')]))\<close>
proof -
  let ?A = "Str ''AUTH_DATA_UPDATE''"
  let ?R = "reachable token_answers sample_json ?A (boot None Missing) {#AwaitReadFile#}"
  let ?req = "Obj [(''public_token'', Str ''public-xyz'')]"
  let ?d = "Obj [(''access_token'', Str ''access-sandbox-1''), (''item_id'', Str ''item-1'')]"
  let ?r1 = "Obj [(''accessToken'', Str ''access-sandbox-1''), (''userStatus'', Str ''disconnected'')]"
  let ?t1 = \<open>''{"accessToken":"access-sandbox-1","userStatus":"disconnected"}''\<close>
  let ?s1 = "emit (RemoteCall ''itemPublicTokenExchange'' ?req) fresh"
  let ?s2 = \<open>(emit (Console [Txt (''You got back '' @
               ''{"access_token":"access-sandbox-1","item_id":"item-1"}'')]) ?s1)
             \<lparr>userRecord := ?r1\<rparr>\<close>
  let ?s3 = "emit (Responded (Reply 200 (Obj [(''user_status'', Str ''disconnected'')]))) ?s2"
  have "?R (boot None Missing) {#AwaitReadFile#}"
    by (rule reachable.at_start)
  from reachable.woken [OF this, of AwaitReadFile ReadDone Ends fresh]
  have "?R fresh {#}"
    by (simp add: token_answers_def pending_def startup_def getUserRecord_def
        getUserRecord_try_def emit_def sample_defs)
  from reachable.request [OF this, of "POST_swap_public_token ?req"
      "Suspended (AwaitRemote ItemPublicTokenExchange ?req)" ?s1]
  have "?R ?s1 {#AwaitRemote ItemPublicTokenExchange ?req#}"
    by (simp add: pending_def)
  from reachable.woken [OF this, of "AwaitRemote ItemPublicTokenExchange ?req"
      "RemoteDone (Inr (Obj [(''data'', ?d)]))" "Suspended (AwaitWriteAccessToken (Some ?t1))" ?s2]
  have "?R ?s2 {#AwaitWriteAccessToken (Some ?t1)#}"
    by (simp add: token_answers_def nullish_def pending_def emit_def sample_defs)
  from reachable.request [OF this, of GET_get_user_info
      "Responds (Reply 200 (Obj [(''user_status'', Str ''disconnected'')]))" ?s3]
  have "?R ?s3 {#AwaitWriteAccessToken (Some ?t1)#}"
    by (simp add: pending_def respond_alt app_use_errorHandler_def get_user_info_def
        res_json_def emit_def sample_defs)
  moreover have "userRecord ?s3 = ?r1" "user_data_file ?s3 = Missing"
    "last (trace ?s3) = Responded (Reply 200 (Obj [(''user_status'', Str ''disconnected'')]))"
    by (simp_all add: emit_def sample_defs)
  ultimately show ?thesis by blast
qed

theorem record_invariant_reachable_witness:
  "\<exists>st. reachable token_answers sample_json (Str ''AUTH_DATA_UPDATE'')
           (boot None Missing) {#AwaitReadFile#} st {#}
        \<and> userRecord st =
            Obj [(''accessToken'', Str ''access-sandbox-1''), (''userStatus'', Str ''connected'')]
        \<and> record_invariant (userRecord st)"
proof -
  let ?A = "Str ''AUTH_DATA_UPDATE''"
  let ?R = "reachable token_answers sample_json ?A (boot None Missing) {#AwaitReadFile#}"
  let ?r2 = "Obj [(''accessToken'', Str ''access-sandbox-1''), (''userStatus'', Str ''connected'')]"
  let ?t1 = \<open>''{"accessToken":"access-sandbox-1","userStatus":"disconnected"}''\<close>
  let ?t2 = \<open>''{"accessToken":"access-sandbox-1","userStatus":"connected"}''\<close>
  from swap_observed_between_updates obtain s3 where
    r3: "?R s3 {#AwaitWriteAccessToken (Some ?t1)#}"
    and u3: "userRecord s3 =
      Obj [(''accessToken'', Str ''access-sandbox-1''), (''userStatus'', Str ''disconnected'')]"
    by blast
  let ?s4 = "(write_completes (Some ?t1) WriteOk s3)\<lparr>userRecord := ?r2\<rparr>"
  let ?s5 = "emit (Responded (Reply 200 (Obj [(''status'', Str ''success'')])))
               (write_completes (Some ?t2) WriteOk ?s4)"
  from reachable.woken [OF r3, of "AwaitWriteAccessToken (Some ?t1)" "WriteDone WriteOk"
      "Suspended (AwaitWriteUserStatus (Some ?t2))" ?s4] u3
  have "?R ?s4 {#AwaitWriteUserStatus (Some ?t2)#}"
    by (simp add: token_answers_def pending_def write_completes_userRecord sample_defs)
  from reachable.woken [OF this, of "AwaitWriteUserStatus (Some ?t2)" "WriteDone WriteOk"
      "Responds (Reply 200 (Obj [(''status'', Str ''success'')]))" ?s5]
  have r5: "?R ?s5 {#}"
    by (simp add: token_answers_def pending_def respond_alt app_use_errorHandler_def
        res_json_def)
  have u5: "userRecord ?s5 = ?r2"
    by (simp add: emit_def write_completes_userRecord)
  have store: "\<forall>s r. (Missing::disk) = Content s \<longrightarrow> JSON_parse sample_json s = Some r
                 \<longrightarrow> record_invariant r"
    by simp
  have "record_invariant (userRecord ?s5)"
    by (rule record_invariant_reachable [OF store r5]) simp_all
  with r5 u5 show ?thesis by blast
qed

end
